theory Spec2Isabelle
  imports Complex_Main "HOL-Library.AList" "HOL-Library.Char_ord" "HOL-Library.List_Lexorder"
begin

text \<open>
  A model of the Go package \<^verbatim>\<open>jsondiscrim\<close>: the constant marker \<^verbatim>\<open>Const[T, S]\<close>,
  the inference of the discriminator field and the dispatching decode (file
  \<^verbatim>\<open>discrim.go\<close>), and the earlier version of \<^verbatim>\<open>Structs\<close>. A panic
  is a value of type \<open>panic\<close>, a returned error a value of type \<open>error\<close>. The
  external JSON codec is a parameter of the functions that call it.
\<close>

section \<open>Run-time type descriptors (package reflect)\<close>

text \<open>
  The package inspects its arguments through \<^verbatim>\<open>reflect\<close>. A \<^verbatim>\<open>reflect.Type\<close> is
  modelled by the datatype \<open>rtype\<close>; type identity (\<^verbatim>\<open>==\<close> on \<^verbatim>\<open>reflect.Type\<close>) is
  equality of descriptors. \<open>TDefined n t\<close> is the defined type \<^verbatim>\<open>type n t\<close>. A struct
  type \<open>TStruct fs emb\<close> is given by the list \<open>fs\<close> of its fields, which is also what
  \<^verbatim>\<open>reflect.VisibleFields\<close> enumerates (promoted fields of embedded structs are
  listed with the others), and by \<open>emb\<close>, which describes its method set as far as
  the package looks at it: the type of the embedded field from which the struct type
  gets the method \<^verbatim>\<open>constValue\<close> by promotion, or \<open>None\<close> when no embedded field
  gives it this method. \<open>TConst T S\<close> is the instantiated generic type
  \<^verbatim>\<open>Const[T, S]\<close>, declared as \<^verbatim>\<open>struct{}\<close>.
\<close>

datatype kind = KBool | KInt | KFloat64 | KString | KStruct | KPointer | KInterface

datatype rtype =
    TBool | TInt | TFloat64 | TString
  | TDefined string rtype
  | TPointer rtype
  | TInterface string
  | TStruct "sfield list" "rtype option"
  | TConst rtype rtype
and sfield =
    SField (Name: string) (PkgPath: string) (Tag: "(string \<times> string) list") (Type: rtype)

fun Kind :: "rtype \<Rightarrow> kind" where
  "Kind TBool = KBool"
| "Kind TInt = KInt"
| "Kind TFloat64 = KFloat64"
| "Kind TString = KString"
| "Kind (TDefined n t) = Kind t"
| "Kind (TPointer t) = KPointer"
| "Kind (TInterface n) = KInterface"
| "Kind (TStruct fs emb) = KStruct"
| "Kind (TConst T S) = KStruct"

text \<open>
  The fields of a type of kind struct; \<^verbatim>\<open>Const[T, S]\<close> has none. \<^verbatim>\<open>Field\<close> is
  called only after \<^verbatim>\<open>NumField\<close> has been checked, so its index is in range.
\<close>

fun VisibleFields :: "rtype \<Rightarrow> sfield list" where
  "VisibleFields (TStruct fs emb) = fs"
| "VisibleFields (TDefined n t) = VisibleFields t"
| "VisibleFields t = []"

definition NumField :: "rtype \<Rightarrow> nat" where
  "NumField t = length (VisibleFields t)"

definition Field :: "rtype \<Rightarrow> nat \<Rightarrow> sfield" where
  "Field t i = VisibleFields t ! i"

text \<open>
  A struct tag is kept parsed, as the list of its \<^verbatim>\<open>key:"value"\<close> pairs.
  \<^verbatim>\<open>Tag.Lookup\<close> tells an absent key from an empty value, \<^verbatim>\<open>Tag.Get\<close> does not.
\<close>

definition Lookup :: "(string \<times> string) list \<Rightarrow> string \<Rightarrow> string option" where
  "Lookup tag key = map_of tag key"

definition Get :: "(string \<times> string) list \<Rightarrow> string \<Rightarrow> string" where
  "Get tag key = (case map_of tag key of None \<Rightarrow> [] | Some v \<Rightarrow> v)"

section \<open>JSON values and Go values\<close>

text \<open>
  A JSON value is represented by its tree; the members of an object keep their order,
  and a name may occur twice. A number token is represented by the value it denotes, a
  string by its text.

  A Go value of a constant's type \<open>T\<close> is represented by its content: a JSON scalar for
  the kinds bool, int, float64 and string; \<open>JNull\<close> for a nil pointer and the content of
  the pointee for any other pointer; for an interface type the JSON value that the codec
  decoded into it; for a struct the object of the contents of its fields, in the order
  of the descriptor.

  A value of type \<^verbatim>\<open>any\<close> is nil, or a dynamic type with a content that Go compares
  by content (\<open>Any\<close>), or the value of the constant of the identity struct \<open>S\<close> that
  holds a pointer and is compared by the address it holds (\<open>AnyRef T S\<close>), or a struct
  value with a slice or a map in a field of interface type (\<open>AnyUncomparable\<close>), or one
  of the two composite values the codec produces when it decodes into \<^verbatim>\<open>any\<close>
  (\<^verbatim>\<open>[]any\<close> and \<^verbatim>\<open>map[string]any\<close>). Two \<^verbatim>\<open>any\<close> values are equal only if
  their dynamic types are identical.
\<close>

datatype json =
    JNull | JBool bool | JNumber rat | JString string
  | JArray "json list"
  | JObject "(string \<times> json) list"

datatype anyv =
    NilAny
  | Any rtype json
  | AnyRef rtype rtype
  | AnyUncomparable rtype json
  | AnySlice "json list"
  | AnyMap "(string \<times> json) list"

text \<open>
  An interface value of the union type: nil, or a dynamic type with its value. The
  value of a pointer type is \<open>None\<close> for the nil pointer and \<open>Some i\<close> for a pointer to
  the instance \<open>i\<close>; the value of a struct type is \<open>Some i\<close>.
\<close>

datatype 'i iface = INil | IVal rtype "'i option"

text \<open>
  The panics, one constructor for each message of the package and for each run-time
  panic of Go that its code can raise: the five of \<^verbatim>\<open>makeConstInfo\<close> and \<^verbatim>\<open>Value\<close>
  (the first stands for the two checks that share the message "const type argument is
  not struct"), the seven of the constructors and of the inference, and four of the
  run time: \<^verbatim>\<open>Type.Elem\<close> on a type without element type, the hash of an unhashable
  map key, the comparison of two interface values of one uncomparable dynamic type, and
  a method call through a nil pointer or on a nil \<^verbatim>\<open>reflect.Type\<close>.
\<close>

datatype panic =
    ConstNotStruct
  | ConstFieldTypeDisagree
  | ConstNoTag
  | ConstMalformedTag string
  | ConstTypeMismatch rtype rtype
  | NotInterfaceType rtype
  | NoChoices
  | NilArgument nat rtype
  | NotStructArgument rtype
  | MultipleFields string rtype
  | AmbiguousFields string string
  | CannotDetermine "string list"
  | ElemOfInvalidType rtype
  | UnhashableType anyv
  | UncomparableType anyv
  | NilPointerDereference

text \<open>
  The errors a decode returns. \<open>UnknownDiscriminator\<close> carries the one operand its
  message renders: the second operand of the format is the iterator
  \<^verbatim>\<open>maps.Keys(discrimByValue)\<close>, a function value, which \<^verbatim>\<open>%v\<close> prints as an
  address; the keys are not enumerated. \<open>DuplicateName\<close> is the error of a
  \<^verbatim>\<open>jsontext\<close> decoder with the default options on a member name that the object
  has already used.
\<close>

datatype 'e error =
    CodecError 'e
  | UnexpectedConst json json
  | ExpectedObject char
  | FieldNotFound string
  | UnknownDiscriminator anyv
  | DuplicateName string

datatype ('e, 'a) result = Panicked panic | Failed "'e error" | Returned 'a

text \<open>
  The dynamic value of an \<^verbatim>\<open>any\<close> that the codec has decoded a JSON value into:
  nil, \<^verbatim>\<open>bool\<close>, \<^verbatim>\<open>float64\<close>, \<^verbatim>\<open>string\<close>, \<^verbatim>\<open>[]any\<close> or
  \<^verbatim>\<open>map[string]any\<close>.
\<close>

fun dyn_of :: "json \<Rightarrow> anyv" where
  "dyn_of JNull = NilAny"
| "dyn_of (JBool b) = Any TBool (JBool b)"
| "dyn_of (JNumber n) = Any TFloat64 (JNumber n)"
| "dyn_of (JString s) = Any TString (JString s)"
| "dyn_of (JArray xs) = AnySlice xs"
| "dyn_of (JObject ms) = AnyMap ms"

definition field_contents :: "json \<Rightarrow> json list" where
  "field_contents c = (case c of JObject ms \<Rightarrow> map snd ms | _ \<Rightarrow> [])"

text \<open>
  Go's \<^verbatim>\<open>==\<close> on two values of type \<open>T\<close> of which one has just been decoded, so that
  they share no pointer: two pointers are equal only when both are nil; two interface
  values are compared by dynamic type and value, which panics when both hold a slice or
  both hold a map; a struct is compared field by field in source order, blank fields
  left out, up to the first difference; the basic kinds are compared by value.
\<close>

fun go_eq :: "rtype \<Rightarrow> json \<Rightarrow> json \<Rightarrow> panic + bool"
and go_eq_fields :: "sfield list \<Rightarrow> json list \<Rightarrow> json list \<Rightarrow> panic + bool" where
  "go_eq TBool a b = Inr (a = b)"
| "go_eq TInt a b = Inr (a = b)"
| "go_eq TFloat64 a b = Inr (a = b)"
| "go_eq TString a b = Inr (a = b)"
| "go_eq (TDefined n t) a b = go_eq t a b"
| "go_eq (TPointer t) a b = Inr (a = JNull \<and> b = JNull)"
| "go_eq (TInterface n) a b =
    (case (dyn_of a, dyn_of b) of
       (AnySlice xs, AnySlice ys) \<Rightarrow> Inl (UncomparableType (AnySlice xs))
     | (AnyMap xs, AnyMap ys) \<Rightarrow> Inl (UncomparableType (AnyMap xs))
     | (x, y) \<Rightarrow> Inr (x = y))"
| "go_eq (TStruct fs emb) a b = go_eq_fields fs (field_contents a) (field_contents b)"
| "go_eq (TConst T S) a b = Inr True"
| "go_eq_fields [] as bs = Inr True"
| "go_eq_fields (SField n p tg ty # fs) (a # as) (b # bs) =
    (if n = ''_'' then go_eq_fields fs as bs
     else (case go_eq ty a b of
         Inl q \<Rightarrow> Inl q
       | Inr eq \<Rightarrow> if eq then go_eq_fields fs as bs else Inr False))"
| "go_eq_fields (f # fs) as bs = Inr (as = bs)"

text \<open>
  How a value of type \<open>T\<close> behaves as a key of a map, or as an operand of \<^verbatim>\<open>==\<close>
  against a value decoded elsewhere: by its content; by the address of a pointer it
  holds (a pointer that is not nil, in the value or in a field that is not blank); or not
  at all, when a field of interface type holds a slice or a map, whose hash panics.
\<close>

datatype comparison = ByContent | ByAddress | NotComparable

fun worse :: "comparison \<Rightarrow> comparison \<Rightarrow> comparison" where
  "worse NotComparable y = NotComparable"
| "worse x NotComparable = NotComparable"
| "worse ByAddress y = ByAddress"
| "worse x ByAddress = ByAddress"
| "worse ByContent ByContent = ByContent"

fun compares :: "rtype \<Rightarrow> json \<Rightarrow> comparison"
and compares_fields :: "sfield list \<Rightarrow> json list \<Rightarrow> comparison" where
  "compares TBool c = ByContent"
| "compares TInt c = ByContent"
| "compares TFloat64 c = ByContent"
| "compares TString c = ByContent"
| "compares (TDefined n t) c = compares t c"
| "compares (TPointer t) c = (if c = JNull then ByContent else ByAddress)"
| "compares (TInterface n) c =
    (case c of JArray xs \<Rightarrow> NotComparable | JObject ms \<Rightarrow> NotComparable | _ \<Rightarrow> ByContent)"
| "compares (TStruct fs emb) c = compares_fields fs (field_contents c)"
| "compares (TConst T S) c = ByContent"
| "compares_fields [] cs = ByContent"
| "compares_fields (SField n p tg ty # fs) (c # cs) =
    (if n = ''_'' then compares_fields fs cs
     else worse (compares ty c) (compares_fields fs cs))"
| "compares_fields (f # fs) [] = ByContent"

text \<open>
  The conversion \<^verbatim>\<open>any(x)\<close> of the constant \<open>x\<close> of type \<open>T\<close> that \<^verbatim>\<open>Value\<close>
  returns for the identity struct \<open>S\<close>. For an interface type \<open>T\<close> the result has the
  dynamic type of the value that \<open>x\<close> holds. The pointers of a constant are allocated
  when the constant is decoded, once for each \<open>S\<close>, so a constant with a pointer is
  equal to itself only.
\<close>

definition box :: "rtype \<Rightarrow> rtype \<Rightarrow> json \<Rightarrow> anyv" where
  "box T S c =
    (if Kind T = KInterface then dyn_of c
     else (case compares T c of
         NotComparable \<Rightarrow> AnyUncomparable T c
       | ByAddress \<Rightarrow> AnyRef T S
       | ByContent \<Rightarrow> Any T c))"

text \<open>The values of type \<^verbatim>\<open>any\<close> that a map accepts as a key.\<close>

fun hashable :: "anyv \<Rightarrow> bool" where
  "hashable (AnySlice xs) = False"
| "hashable (AnyMap ms) = False"
| "hashable (AnyUncomparable T c) = False"
| "hashable k = True"

section \<open>Const: constants as types\<close>

text \<open>
  \<^verbatim>\<open>constInfo[T]\<close>: the type parameter it was instantiated with, and its two fields.
  The external codec is a parameter: \<open>dec T bytes\<close> is what
  \<^verbatim>\<open>json.Unmarshal(bytes, &x)\<close> leaves in \<open>x\<close> of type \<open>T\<close>, or its error.
\<close>

datatype constInfo = ConstInfo (tparam: rtype) (valueType: rtype) (cvalue: json)

type_synonym memo = "rtype \<rightharpoonup> constInfo"

type_synonym 'e decoder = "rtype \<Rightarrow> string \<Rightarrow> 'e + json"

definition makeConstInfo :: "'e decoder \<Rightarrow> rtype \<Rightarrow> rtype \<Rightarrow> panic + constInfo" where
  "makeConstInfo dec T S =
    (if Kind S \<noteq> KStruct then Inl ConstNotStruct
     else if NumField S \<noteq> 1 then Inl ConstNotStruct
     else if Type (Field S 0) \<noteq> T then Inl ConstFieldTypeDisagree
     else (case Lookup (Tag (Field S 0)) ''const'' of
         None \<Rightarrow> Inl ConstNoTag
       | Some jsonVal \<Rightarrow>
           if Kind T = KString then Inr (ConstInfo T T (JString jsonVal))
           else (case dec T jsonVal of
               Inl e \<Rightarrow> Inl (ConstMalformedTag jsonVal)
             | Inr c \<Rightarrow> Inr (ConstInfo T T c))))"

text \<open>\<^verbatim>\<open>sync.Map.LoadOrStore\<close>: an entry that is present is kept.\<close>

definition LoadOrStore :: "memo \<Rightarrow> rtype \<Rightarrow> constInfo \<Rightarrow> memo" where
  "LoadOrStore m S info = (case m S of None \<Rightarrow> m(S \<mapsto> info) | Some old \<Rightarrow> m)"

text \<open>
  \<^verbatim>\<open>Value\<close> reads and fills the package-level table \<^verbatim>\<open>constByType\<close>, keyed by
  \<open>S\<close>; the table is passed in and returned. A panic leaves it as it was. The type
  assertion \<^verbatim>\<open>info0.(*constInfo[T])\<close> holds when the entry was made for the same \<open>T\<close>.
\<close>

function Value :: "'e decoder \<Rightarrow> rtype \<Rightarrow> rtype \<Rightarrow> memo \<Rightarrow> (panic + json) \<times> memo" where
  "Value dec T S m =
    (case m S of
       None \<Rightarrow>
         (case makeConstInfo dec T S of
            Inl p \<Rightarrow> (Inl p, m)
          | Inr info \<Rightarrow> Value dec T S (LoadOrStore m S info))
     | Some info0 \<Rightarrow>
         if tparam info0 \<noteq> T then (Inl (ConstTypeMismatch (valueType info0) T), m)
         else (Inr (cvalue info0), m))"
  by pat_completeness auto
termination
  by (relation "measure (\<lambda>(dec, T, S, m). if m S = None then 1 else 0)")
     (auto simp: LoadOrStore_def)

declare Value.simps [simp del]

text \<open>\<^verbatim>\<open>constValue\<close> converts the constant to \<^verbatim>\<open>any\<close>.\<close>

definition constValue :: "'e decoder \<Rightarrow> rtype \<Rightarrow> rtype \<Rightarrow> memo \<Rightarrow> (panic + anyv) \<times> memo" where
  "constValue dec T S m =
    (case Value dec T S m of
       (Inl p, m') \<Rightarrow> (Inl p, m')
     | (Inr v, m') \<Rightarrow> (Inr (box T S v), m'))"


section \<open>Discriminator inference\<close>

text \<open>
  \<^verbatim>\<open>isNil\<close> is called on values of the union type, an interface type:
  \<^verbatim>\<open>reflect.ValueOf(&x).Elem()\<close> is then the interface variable itself, and
  \<^verbatim>\<open>IsNil\<close> tells whether it holds no dynamic value. \<^verbatim>\<open>reflect.TypeOf\<close> gives
  the dynamic type, nil for the nil interface value.
\<close>

definition isNil :: "'i iface \<Rightarrow> bool" where
  "isNil x = (case x of INil \<Rightarrow> True | IVal t v \<Rightarrow> False)"

definition TypeOf :: "'i iface \<Rightarrow> rtype option" where
  "TypeOf x = (case x of INil \<Rightarrow> None | IVal t v \<Rightarrow> Some t)"

fun underlying :: "rtype \<Rightarrow> rtype" where
  "underlying (TDefined n t) = underlying t"
| "underlying t = t"

text \<open>\<^verbatim>\<open>Type.Elem\<close> panics on a type that has no element type.\<close>

definition Elem :: "rtype \<Rightarrow> panic + rtype" where
  "Elem t = (case underlying t of TPointer e \<Rightarrow> Inr e | _ \<Rightarrow> Inl (ElemOfInvalidType t))"

definition jsonFieldName :: "sfield \<Rightarrow> string" where
  "jsonFieldName f =
    (let name = Name f;
         tag = Get (Tag f) ''json''
     in if tag \<noteq> [] then
          (let jsonName = takeWhile (\<lambda>c. c \<noteq> CHR '','') tag
           in if jsonName \<noteq> [] then jsonName else name)
        else name)"

text \<open>
  The type assertion of \<^verbatim>\<open>reflect.Zero(f.Type).Interface()\<close> to
  \<^verbatim>\<open>interface{ constValue() any }\<close> holds when the zero value is not a nil
  interface value and the method set of the type has \<^verbatim>\<open>constValue\<close>. The method is
  declared on \<^verbatim>\<open>Const[T, S]\<close> with a value receiver and its name is not exported,
  so no other type declares it: it is in the method set of \<^verbatim>\<open>Const[T, S]\<close>, of
  \<^verbatim>\<open>*Const[T, S]\<close>, of a struct type that gets it by promotion from an embedded
  field (also under a defined name), and of a pointer to such a struct type; a defined
  type over \<^verbatim>\<open>Const[T, S]\<close> or over a pointer type does not have it, nor has a pointer
  to a pointer or to an interface. \<open>constValue_method t\<close> is \<open>None\<close> when the assertion
  fails for the type \<open>t\<close>, and otherwise tells what the call of the method on the zero
  value of \<open>t\<close> reaches: the zero \<^verbatim>\<open>Const[T, S]\<close>, or a nil pointer on the way to it.
\<close>

datatype receiver = ZeroConst rtype rtype | NilPointer

fun constValue_method :: "rtype \<Rightarrow> receiver option"
and promoted_method :: "rtype \<Rightarrow> receiver option" where
  "constValue_method (TConst T S) = Some (ZeroConst T S)"
| "constValue_method (TPointer t) =
    (if Kind t = KPointer \<or> Kind t = KInterface then None
     else (case constValue_method t of None \<Rightarrow> None | Some r \<Rightarrow> Some NilPointer))"
| "constValue_method (TStruct fs None) = None"
| "constValue_method (TStruct fs (Some E)) = constValue_method E"
| "constValue_method (TDefined n t) = promoted_method t"
| "constValue_method TBool = None"
| "constValue_method TInt = None"
| "constValue_method TFloat64 = None"
| "constValue_method TString = None"
| "constValue_method (TInterface n) = None"
| "promoted_method (TStruct fs None) = None"
| "promoted_method (TStruct fs (Some E)) = constValue_method E"
| "promoted_method (TDefined n t) = promoted_method t"
| "promoted_method TBool = None"
| "promoted_method TInt = None"
| "promoted_method TFloat64 = None"
| "promoted_method TString = None"
| "promoted_method (TInterface n) = None"
| "promoted_method (TPointer t) = None"
| "promoted_method (TConst T S) = None"

text \<open>
  The loop of \<^verbatim>\<open>constFields\<close> over the visible fields. The map \<^verbatim>\<open>fields\<close> is an
  association list with distinct keys. The call \<^verbatim>\<open>fv.constValue()\<close> comes after the
  check of the name.
\<close>

fun constFields_loop ::
  "'e decoder \<Rightarrow> rtype \<Rightarrow> sfield list \<Rightarrow> (string \<times> anyv) list \<Rightarrow> memo
    \<Rightarrow> (panic + (string \<times> anyv) list) \<times> memo" where
  "constFields_loop dec t0 [] fields m = (Inr fields, m)"
| "constFields_loop dec t0 (f # fs) fields m =
    (if PkgPath f \<noteq> [] then constFields_loop dec t0 fs fields m
     else (case constValue_method (Type f) of
         None \<Rightarrow> constFields_loop dec t0 fs fields m
       | Some fv \<Rightarrow>
           (let name = jsonFieldName f
            in if map_of fields name \<noteq> None then (Inl (MultipleFields name t0), m)
               else (case fv of
                   NilPointer \<Rightarrow> (Inl NilPointerDereference, m)
                 | ZeroConst T S \<Rightarrow>
                     (case constValue dec T S m of
                        (Inl p, m') \<Rightarrow> (Inl p, m')
                      | (Inr v, m') \<Rightarrow>
                          constFields_loop dec t0 fs (AList.update name v fields) m')))))"

text \<open>
  \<^verbatim>\<open>constFields\<close> takes the result of \<^verbatim>\<open>reflect.TypeOf\<close>, which is nil for a nil
  interface value: the first method call on it is then a nil dereference.
\<close>

definition constFields ::
  "'e decoder \<Rightarrow> rtype option \<Rightarrow> memo \<Rightarrow> (panic + (string \<times> anyv) list) \<times> memo" where
  "constFields dec t0 m =
    (case t0 of
       None \<Rightarrow> (Inl NilPointerDereference, m)
     | Some t0' \<Rightarrow>
         (case (if Kind t0' = KPointer then Elem t0' else Inr t0') of
            Inl p \<Rightarrow> (Inl p, m)
          | Inr t \<Rightarrow>
              if Kind t \<noteq> KStruct then (Inl (NotStructArgument t0'), m)
              else constFields_loop dec t0' (VisibleFields t) [] m))"

text \<open>
  Go ranges over a map in an order it does not specify. The order is a parameter
  \<open>ord\<close>: it rearranges the list of keys, and \<open>range_map ord m\<close> lists the entries of
  \<open>m\<close> as the loop visits them.
\<close>

definition range_map :: "(string list \<Rightarrow> string list) \<Rightarrow> (string \<times> 'v) list \<Rightarrow> (string \<times> 'v) list" where
  "range_map ord m = List.map_filter (\<lambda>k. map_option (Pair k) (map_of m k)) (ord (map fst m))"

type_synonym 'i discrims = "(string \<times> (anyv \<times> 'i iface) list) list"

text \<open>
  The body and the loop over the constant fields of one choice. The assignment
  \<^verbatim>\<open>byValue[v] = choice\<close> hashes the key \<open>v\<close>, which panics when it is not hashable.
\<close>

fun add_fields ::
  "(string \<times> anyv) list \<Rightarrow> 'i iface \<Rightarrow> 'i discrims \<Rightarrow> panic + 'i discrims" where
  "add_fields [] choice discrims = Inr discrims"
| "add_fields ((fieldName, v) # rest) choice discrims =
    (let byValue = (case map_of discrims fieldName of None \<Rightarrow> [] | Some bv \<Rightarrow> bv)
     in if \<not> hashable v then Inl (UnhashableType v)
        else add_fields rest choice
               (AList.update fieldName (AList.update v choice byValue) discrims))"

fun collect ::
  "'e decoder \<Rightarrow> (string list \<Rightarrow> string list) \<Rightarrow> rtype \<Rightarrow> nat \<Rightarrow> 'i iface list \<Rightarrow> 'i discrims \<Rightarrow> memo
    \<Rightarrow> (panic + 'i discrims) \<times> memo" where
  "collect dec ord U i [] discrims m = (Inr discrims, m)"
| "collect dec ord U i (choice # rest) discrims m =
    (if isNil choice then (Inl (NilArgument i U), m)
     else (case constFields dec (TypeOf choice) m of
         (Inl p, m') \<Rightarrow> (Inl p, m')
       | (Inr fields, m') \<Rightarrow>
           (case add_fields (range_map ord fields) choice discrims of
              Inl p \<Rightarrow> (Inl p, m')
            | Inr discrims' \<Rightarrow> collect dec ord U (Suc i) rest discrims' m')))"

text \<open>
  The second loop, over \<^verbatim>\<open>discrims\<close>; \<open>n\<close> is \<^verbatim>\<open>len(choices)\<close>. The empty string
  stands for "no field yet", as in the source.
\<close>

fun select ::
  "nat \<Rightarrow> (string \<times> (anyv \<times> 'i iface) list) list \<Rightarrow> string \<Rightarrow> (anyv \<times> 'i iface) list
    \<Rightarrow> panic + string \<times> (anyv \<times> 'i iface) list" where
  "select n [] discrimField discrimByValue = Inr (discrimField, discrimByValue)"
| "select n ((fieldName, byValue) # rest) discrimField discrimByValue =
    (if length byValue \<noteq> n then select n rest discrimField discrimByValue
     else if discrimField \<noteq> [] then Inl (AmbiguousFields discrimField fieldName)
     else select n rest fieldName byValue)"

definition determineDiscriminator ::
  "'e decoder \<Rightarrow> (string list \<Rightarrow> string list) \<Rightarrow> rtype \<Rightarrow> 'i iface list \<Rightarrow> memo
    \<Rightarrow> (panic + string \<times> (anyv \<times> 'i iface) list) \<times> memo" where
  "determineDiscriminator dec ord U choices m =
    (case collect dec ord U 0 choices [] m of
       (Inl p, m') \<Rightarrow> (Inl p, m')
     | (Inr discrims, m') \<Rightarrow>
         (case select (length choices) (range_map ord discrims) [] [] of
            Inl p \<Rightarrow> (Inl p, m')
          | Inr (discrimField, discrimByValue) \<Rightarrow>
              if discrimField = [] then (Inl (CannotDetermine (sort (map fst discrims))), m')
              else (Inr (discrimField, discrimByValue), m')))"

section \<open>Dispatching decode\<close>

text \<open>
  The raw value was read by \<^verbatim>\<open>d.ReadValue()\<close> under the options of the caller, which
  may allow an object to use a name twice. \<^verbatim>\<open>fieldValue\<close> scans it with a decoder of
  its own, which has the default options and rejects such a name when it reads it, at
  any depth. The decode of the member into \<^verbatim>\<open>any\<close> converts each number to
  \<^verbatim>\<open>float64\<close>; the conversion is a parameter of the codec: \<open>f64 r\<close> is the
  \<^verbatim>\<open>float64\<close> nearest to the number \<open>r\<close>, or the error for a number out of range.
  \<open>decode_value\<close> reads a value token by token, in the order of the text.
\<close>

type_synonym 'e float64 = "rat \<Rightarrow> 'e + rat"

fun decode_value :: "'e float64 \<Rightarrow> json \<Rightarrow> 'e error + json"
and decode_elements :: "'e float64 \<Rightarrow> json list \<Rightarrow> 'e error + json list"
and decode_members ::
  "'e float64 \<Rightarrow> string list \<Rightarrow> (string \<times> json) list \<Rightarrow> 'e error + (string \<times> json) list" where
  "decode_value f64 JNull = Inr JNull"
| "decode_value f64 (JBool b) = Inr (JBool b)"
| "decode_value f64 (JNumber r) =
    (case f64 r of Inl e \<Rightarrow> Inl (CodecError e) | Inr x \<Rightarrow> Inr (JNumber x))"
| "decode_value f64 (JString s) = Inr (JString s)"
| "decode_value f64 (JArray xs) =
    (case decode_elements f64 xs of Inl err \<Rightarrow> Inl err | Inr ys \<Rightarrow> Inr (JArray ys))"
| "decode_value f64 (JObject ms) =
    (case decode_members f64 [] ms of Inl err \<Rightarrow> Inl err | Inr ns \<Rightarrow> Inr (JObject ns))"
| "decode_elements f64 [] = Inr []"
| "decode_elements f64 (x # xs) =
    (case decode_value f64 x of
       Inl err \<Rightarrow> Inl err
     | Inr y \<Rightarrow>
         (case decode_elements f64 xs of Inl err \<Rightarrow> Inl err | Inr ys \<Rightarrow> Inr (y # ys)))"
| "decode_members f64 seen [] = Inr []"
| "decode_members f64 seen ((name, v) # rest) =
    (if name \<in> set seen then Inl (DuplicateName name)
     else (case decode_value f64 v of
         Inl err \<Rightarrow> Inl err
       | Inr w \<Rightarrow>
           (case decode_members f64 (name # seen) rest of
              Inl err \<Rightarrow> Inl err
            | Inr ns \<Rightarrow> Inr ((name, w) # ns))))"

text \<open>\<^verbatim>\<open>json.UnmarshalDecode(d, &v)\<close> with \<open>v\<close> of type \<^verbatim>\<open>any\<close>.\<close>

definition decode_any :: "'e float64 \<Rightarrow> json \<Rightarrow> 'e error + anyv" where
  "decode_any f64 v =
    (case decode_value f64 v of Inl err \<Rightarrow> Inl err | Inr w \<Rightarrow> Inr (dyn_of w))"

text \<open>\<^verbatim>\<open>d.SkipValue()\<close> reads the tokens of a value and converts no number.\<close>

definition SkipValue :: "json \<Rightarrow> 'e error + unit" where
  "SkipValue v = (case decode_value Inr v of Inl err \<Rightarrow> Inl err | Inr w \<Rightarrow> Inr ())"

text \<open>
  The scan of \<^verbatim>\<open>fieldValue\<close>. \<open>token_kind\<close> is the kind of the first token of a
  value. \<open>seen\<close> lists the names that the decoder has read in the object. A member
  name is always a string token, so the branch "unexpected token" is not reached.
\<close>

fun token_kind :: "json \<Rightarrow> char" where
  "token_kind JNull = CHR ''n''"
| "token_kind (JBool b) = (if b then CHR ''t'' else CHR ''f'')"
| "token_kind (JNumber n) = CHR ''0''"
| "token_kind (JString s) = CHR 0x22"
| "token_kind (JArray xs) = CHR ''[''"
| "token_kind (JObject ms) = CHR ''{''"

fun fieldValue_loop ::
  "'e float64 \<Rightarrow> string list \<Rightarrow> (string \<times> json) list \<Rightarrow> string \<Rightarrow> 'e error + anyv" where
  "fieldValue_loop f64 seen [] fieldName = Inl (FieldNotFound fieldName)"
| "fieldValue_loop f64 seen ((name, v) # rest) fieldName =
    (if name \<in> set seen then Inl (DuplicateName name)
     else if name \<noteq> fieldName then
       (case SkipValue v of
          Inl err \<Rightarrow> Inl err
        | Inr u \<Rightarrow> fieldValue_loop f64 (name # seen) rest fieldName)
     else decode_any f64 v)"

definition fieldValue :: "'e float64 \<Rightarrow> json \<Rightarrow> string \<Rightarrow> 'e error + anyv" where
  "fieldValue f64 data fieldName =
    (case data of
       JObject members \<Rightarrow> fieldValue_loop f64 [] members fieldName
     | _ \<Rightarrow> Inl (ExpectedObject (token_kind data)))"

text \<open>
  Indexing a \<^verbatim>\<open>map[any]T\<close> hashes the key: a key whose dynamic type is a slice or
  a map is a run-time panic.
\<close>

definition index_any :: "(anyv \<times> 'c) list \<Rightarrow> anyv \<Rightarrow> panic + 'c option" where
  "index_any m k = (if \<not> hashable k then Inl (UnhashableType k) else Inr (map_of m k))"

text \<open>
  The codec's decoder into a shape is a parameter: \<open>um raw e\<close> is the instance that
  \<^verbatim>\<open>json.Unmarshal(raw, p, opts)\<close> leaves behind \<open>p\<close>, a pointer to a fresh zero value
  of type \<open>e\<close>, or its error. The decoder \<open>d\<close> is represented by what
  \<^verbatim>\<open>d.ReadValue()\<close> yields: an error or the next raw value.
\<close>

type_synonym ('e, 'i) unmarshal = "json \<Rightarrow> rtype \<Rightarrow> 'e + 'i"

type_synonym ('e, 'i) unmarshaler = "'e + json \<Rightarrow> 'i iface \<Rightarrow> ('e, unit) result \<times> 'i iface"

text \<open>
  The element type of \<^verbatim>\<open>reflect.New(reflect.TypeOf(zero).Elem())\<close>; the new pointer
  is stored in \<open>zero\<close>.
\<close>

definition New_Elem :: "'i iface \<Rightarrow> panic + rtype" where
  "New_Elem zero = (case TypeOf zero of None \<Rightarrow> Inl NilPointerDereference | Some t \<Rightarrow> Elem t)"

definition UnmarshalDecode :: "('e, 'i) unmarshal \<Rightarrow> 'e + json \<Rightarrow> rtype \<Rightarrow> 'e + 'i" where
  "UnmarshalDecode um d e = (case d of Inl err \<Rightarrow> Inl err | Inr raw \<Rightarrow> um raw e)"

text \<open>The unmarshaler of the case with no discriminator: \<open>src\<close> is \<^verbatim>\<open>*src\<close>.\<close>

definition unmarshal_direct :: "('e, 'i) unmarshal \<Rightarrow> 'i iface \<Rightarrow> ('e, 'i) unmarshaler" where
  "unmarshal_direct um fallback d src =
    (let zero = fallback
     in case New_Elem zero of
          Inl p \<Rightarrow> (Panicked p, src)
        | Inr e \<Rightarrow>
            (case UnmarshalDecode um d e of
               Inl err \<Rightarrow> (Failed (CodecError err), src)
             | Inr inst \<Rightarrow> (Returned (), IVal (TPointer e) (Some inst))))"

text \<open>The choice of \<open>zero\<close> in the second unmarshaler, up to \<^verbatim>\<open>zero = fallback\<close>.\<close>

definition choose_zero ::
  "'e float64 \<Rightarrow> string \<Rightarrow> (anyv \<times> 'i iface) list \<Rightarrow> bool \<Rightarrow> 'i iface \<Rightarrow> json
    \<Rightarrow> ('e, 'i iface) result" where
  "choose_zero f64 discrimField discrimByValue hasFallback fallback raw =
    (if discrimField \<noteq> [] then
       (case fieldValue f64 raw discrimField of
          Inl err \<Rightarrow> if \<not> hasFallback then Failed err else Returned fallback
        | Inr discrimValue \<Rightarrow>
            (case index_any discrimByValue discrimValue of
               Inl p \<Rightarrow> Panicked p
             | Inr None \<Rightarrow>
                 if \<not> hasFallback then Failed (UnknownDiscriminator discrimValue)
                 else Returned fallback
             | Inr (Some zero) \<Rightarrow> Returned zero))
     else Returned fallback)"

definition unmarshal_discrim ::
  "('e, 'i) unmarshal \<Rightarrow> 'e float64 \<Rightarrow> string \<Rightarrow> (anyv \<times> 'i iface) list \<Rightarrow> bool \<Rightarrow> 'i iface
    \<Rightarrow> ('e, 'i) unmarshaler" where
  "unmarshal_discrim um f64 discrimField discrimByValue hasFallback fallback d src =
    (case d of
       Inl err \<Rightarrow> (Failed (CodecError err), src)
     | Inr raw \<Rightarrow>
         (case choose_zero f64 discrimField discrimByValue hasFallback fallback raw of
            Panicked p \<Rightarrow> (Panicked p, src)
          | Failed err \<Rightarrow> (Failed err, src)
          | Returned zero \<Rightarrow>
              (case New_Elem zero of
                 Inl p \<Rightarrow> (Panicked p, src)
               | Inr e \<Rightarrow>
                   (case um raw e of
                      Inl err \<Rightarrow> (Failed (CodecError err), src)
                    | Inr inst \<Rightarrow> (Returned (), IVal (TPointer e) (Some inst))))))"

text \<open>\<open>U\<close> is the type parameter \<open>T\<close> of the two constructors, the union type.\<close>

definition StructsWithFallback ::
  "'e decoder \<Rightarrow> ('e, 'i) unmarshal \<Rightarrow> 'e float64 \<Rightarrow> (string list \<Rightarrow> string list) \<Rightarrow> rtype
    \<Rightarrow> 'i iface \<Rightarrow> 'i iface list \<Rightarrow> memo \<Rightarrow> (panic + ('e, 'i) unmarshaler) \<times> memo" where
  "StructsWithFallback dec um f64 ord U fallback choices m =
    (if Kind U \<noteq> KInterface then (Inl (NotInterfaceType U), m)
     else
       (let hasFallback = \<not> isNil fallback
        in if length choices = 0 \<and> \<not> hasFallback then (Inl NoChoices, m)
           else
             (case (if length choices > 0 then determineDiscriminator dec ord U choices m
                    else (Inr ([], []), m)) of
                (Inl p, m') \<Rightarrow> (Inl p, m')
              | (Inr (discrimField, discrimByValue), m') \<Rightarrow>
                  if discrimField = [] then (Inr (unmarshal_direct um fallback), m')
                  else (Inr (unmarshal_discrim um f64 discrimField discrimByValue hasFallback
                               fallback), m'))))"

definition Structs ::
  "'e decoder \<Rightarrow> ('e, 'i) unmarshal \<Rightarrow> 'e float64 \<Rightarrow> (string list \<Rightarrow> string list) \<Rightarrow> rtype
    \<Rightarrow> 'i iface list \<Rightarrow> memo \<Rightarrow> (panic + ('e, 'i) unmarshaler) \<times> memo" where
  "Structs dec um f64 ord U choices m = StructsWithFallback dec um f64 ord U INil choices m"

section \<open>The earlier implementation of Structs\<close>

text \<open>
  The earlier version of the package has no fallback: \<^verbatim>\<open>Structs\<close> does the inference
  in its own body, does not check the type parameter and does not check its arguments
  for nil. \<^verbatim>\<open>constFields\<close> computes the wire name in place.
\<close>

fun old_constFields_loop ::
  "'e decoder \<Rightarrow> rtype \<Rightarrow> sfield list \<Rightarrow> (string \<times> anyv) list \<Rightarrow> memo
    \<Rightarrow> (panic + (string \<times> anyv) list) \<times> memo" where
  "old_constFields_loop dec t0 [] fields m = (Inr fields, m)"
| "old_constFields_loop dec t0 (f # fs) fields m =
    (if PkgPath f \<noteq> [] then old_constFields_loop dec t0 fs fields m
     else (case constValue_method (Type f) of
         None \<Rightarrow> old_constFields_loop dec t0 fs fields m
       | Some fv \<Rightarrow>
           (let name = Name f;
                tag = Get (Tag f) ''json'';
                name = (if tag \<noteq> [] then
                          (let jsonName = takeWhile (\<lambda>c. c \<noteq> CHR '','') tag
                           in if jsonName \<noteq> [] then jsonName else name)
                        else name)
            in if map_of fields name \<noteq> None then (Inl (MultipleFields name t0), m)
               else (case fv of
                   NilPointer \<Rightarrow> (Inl NilPointerDereference, m)
                 | ZeroConst T S \<Rightarrow>
                     (case constValue dec T S m of
                        (Inl p, m') \<Rightarrow> (Inl p, m')
                      | (Inr v, m') \<Rightarrow>
                          old_constFields_loop dec t0 fs (AList.update name v fields) m')))))"

definition old_constFields ::
  "'e decoder \<Rightarrow> rtype option \<Rightarrow> memo \<Rightarrow> (panic + (string \<times> anyv) list) \<times> memo" where
  "old_constFields dec t0 m =
    (case t0 of
       None \<Rightarrow> (Inl NilPointerDereference, m)
     | Some t0' \<Rightarrow>
         (case (if Kind t0' = KPointer then Elem t0' else Inr t0') of
            Inl p \<Rightarrow> (Inl p, m)
          | Inr t \<Rightarrow>
              if Kind t \<noteq> KStruct then (Inl (NotStructArgument t0'), m)
              else old_constFields_loop dec t0' (VisibleFields t) [] m))"

fun old_fieldValue_loop ::
  "'e float64 \<Rightarrow> string list \<Rightarrow> (string \<times> json) list \<Rightarrow> string \<Rightarrow> 'e error + anyv" where
  "old_fieldValue_loop f64 seen [] fieldName = Inl (FieldNotFound fieldName)"
| "old_fieldValue_loop f64 seen ((name, v) # rest) fieldName =
    (if name \<in> set seen then Inl (DuplicateName name)
     else if name \<noteq> fieldName then
       (case SkipValue v of
          Inl err \<Rightarrow> Inl err
        | Inr u \<Rightarrow> old_fieldValue_loop f64 (name # seen) rest fieldName)
     else decode_any f64 v)"

definition old_fieldValue :: "'e float64 \<Rightarrow> json \<Rightarrow> string \<Rightarrow> 'e error + anyv" where
  "old_fieldValue f64 data fieldName =
    (case data of
       JObject members \<Rightarrow> old_fieldValue_loop f64 [] members fieldName
     | _ \<Rightarrow> Inl (ExpectedObject (token_kind data)))"

fun old_collect ::
  "'e decoder \<Rightarrow> (string list \<Rightarrow> string list) \<Rightarrow> 'i iface list \<Rightarrow> 'i discrims \<Rightarrow> memo
    \<Rightarrow> (panic + 'i discrims) \<times> memo" where
  "old_collect dec ord [] discrims m = (Inr discrims, m)"
| "old_collect dec ord (choice # rest) discrims m =
    (case old_constFields dec (TypeOf choice) m of
       (Inl p, m') \<Rightarrow> (Inl p, m')
     | (Inr fields, m') \<Rightarrow>
         (case add_fields (range_map ord fields) choice discrims of
            Inl p \<Rightarrow> (Inl p, m')
          | Inr discrims' \<Rightarrow> old_collect dec ord rest discrims' m'))"

fun old_select ::
  "nat \<Rightarrow> (string \<times> (anyv \<times> 'i iface) list) list \<Rightarrow> string \<Rightarrow> (anyv \<times> 'i iface) list
    \<Rightarrow> panic + string \<times> (anyv \<times> 'i iface) list" where
  "old_select n [] discrimField discrimByValue = Inr (discrimField, discrimByValue)"
| "old_select n ((fieldName, byValue) # rest) discrimField discrimByValue =
    (if length byValue \<noteq> n then old_select n rest discrimField discrimByValue
     else if discrimField \<noteq> [] then Inl (AmbiguousFields discrimField fieldName)
     else old_select n rest fieldName byValue)"

text \<open>The inference part of the body of the earlier \<^verbatim>\<open>Structs\<close>.\<close>

definition old_discriminator ::
  "'e decoder \<Rightarrow> (string list \<Rightarrow> string list) \<Rightarrow> 'i iface list \<Rightarrow> memo
    \<Rightarrow> (panic + string \<times> (anyv \<times> 'i iface) list) \<times> memo" where
  "old_discriminator dec ord choices m =
    (case old_collect dec ord choices [] m of
       (Inl p, m') \<Rightarrow> (Inl p, m')
     | (Inr discrims, m') \<Rightarrow>
         (case old_select (length choices) (range_map ord discrims) [] [] of
            Inl p \<Rightarrow> (Inl p, m')
          | Inr (discrimField, discrimByValue) \<Rightarrow>
              if discrimField = [] then (Inl (CannotDetermine (sort (map fst discrims))), m')
              else (Inr (discrimField, discrimByValue), m')))"

definition old_unmarshal ::
  "('e, 'i) unmarshal \<Rightarrow> 'e float64 \<Rightarrow> string \<Rightarrow> (anyv \<times> 'i iface) list
    \<Rightarrow> ('e, 'i) unmarshaler" where
  "old_unmarshal um f64 discrimField discrimByValue d src =
    (case d of
       Inl err \<Rightarrow> (Failed (CodecError err), src)
     | Inr raw \<Rightarrow>
         (case old_fieldValue f64 raw discrimField of
            Inl err \<Rightarrow> (Failed err, src)
          | Inr discrimValue \<Rightarrow>
              (case index_any discrimByValue discrimValue of
                 Inl p \<Rightarrow> (Panicked p, src)
               | Inr None \<Rightarrow> (Failed (UnknownDiscriminator discrimValue), src)
               | Inr (Some zero) \<Rightarrow>
                   (case New_Elem zero of
                      Inl p \<Rightarrow> (Panicked p, src)
                    | Inr e \<Rightarrow>
                        (case um raw e of
                           Inl err \<Rightarrow> (Failed (CodecError err), src)
                         | Inr inst \<Rightarrow> (Returned (), IVal (TPointer e) (Some inst)))))))"

definition old_Structs ::
  "'e decoder \<Rightarrow> ('e, 'i) unmarshal \<Rightarrow> 'e float64 \<Rightarrow> (string list \<Rightarrow> string list)
    \<Rightarrow> 'i iface list \<Rightarrow> memo \<Rightarrow> (panic + ('e, 'i) unmarshaler) \<times> memo" where
  "old_Structs dec um f64 ord choices m =
    (if length choices = 0 then (Inl NoChoices, m)
     else
       (case old_discriminator dec ord choices m of
          (Inl p, m') \<Rightarrow> (Inl p, m')
        | (Inr (discrimField, discrimByValue), m') \<Rightarrow>
            (Inr (old_unmarshal um f64 discrimField discrimByValue), m')))"

section \<open>Notions used in the statements\<close>

text \<open>
  The table \<^verbatim>\<open>constByType\<close> starts empty and only \<^verbatim>\<open>Value\<close> writes to it, so
  every entry is what \<^verbatim>\<open>makeConstInfo\<close> computes for its key.
\<close>

definition memo_ok :: "'e decoder \<Rightarrow> memo \<Rightarrow> bool" where
  "memo_ok dec m = (\<forall>S info. m S = Some info \<longrightarrow> makeConstInfo dec (tparam info) S = Inr info)"

text \<open>
  An iteration order visits every key of a map once.
\<close>

definition permutes :: "(string list \<Rightarrow> string list) \<Rightarrow> bool" where
  "permutes ord = (\<forall>ks. distinct ks \<longrightarrow> distinct (ord ks) \<and> set (ord ks) = set ks)"

text \<open>
  The shape behind the dynamic type of a candidate, its marker fields (the exported
  fields whose type has the method \<^verbatim>\<open>constValue\<close>), and the constant of such a
  type: the constant, as a value of type \<^verbatim>\<open>any\<close>, of the \<^verbatim>\<open>Const[T, S]\<close> that
  the method reaches on the zero value, when no nil pointer is on the way to it and
  its identity struct is well formed. \<open>markers dec t0\<close> pairs the wire name of each
  marker field with its constant.
\<close>

definition shape :: "rtype \<Rightarrow> rtype" where
  "shape t0 = (if Kind t0 = KPointer then (case Elem t0 of Inr t \<Rightarrow> t | Inl p \<Rightarrow> t0) else t0)"

definition is_marker :: "rtype \<Rightarrow> bool" where
  "is_marker t = (constValue_method t \<noteq> None)"

definition marker_fields :: "rtype \<Rightarrow> sfield list" where
  "marker_fields t0 = filter (\<lambda>f. PkgPath f = [] \<and> is_marker (Type f)) (VisibleFields (shape t0))"

definition constant_of :: "'e decoder \<Rightarrow> rtype \<Rightarrow> anyv option" where
  "constant_of dec t =
    (case constValue_method t of
       None \<Rightarrow> None
     | Some NilPointer \<Rightarrow> None
     | Some (ZeroConst T S) \<Rightarrow>
         (case makeConstInfo dec T S of
            Inl p \<Rightarrow> None
          | Inr info \<Rightarrow> Some (box T S (cvalue info))))"

definition markers_of :: "'e decoder \<Rightarrow> sfield list \<Rightarrow> (string \<times> anyv) list" where
  "markers_of dec fs =
    List.map_filter (\<lambda>f. map_option (Pair (jsonFieldName f)) (constant_of dec (Type f))) fs"

definition markers :: "'e decoder \<Rightarrow> rtype \<Rightarrow> (string \<times> anyv) list" where
  "markers dec t0 = markers_of dec (marker_fields t0)"

text \<open>
  A candidate that the first loop of the inference accepts: not the nil interface, a
  struct or a pointer to one, every marker field with a constant that a map takes as a
  key and with a name (a Go identifier is not empty), and no wire name used by two
  marker fields.
\<close>

definition usable :: "'e decoder \<Rightarrow> sfield \<Rightarrow> bool" where
  "usable dec f =
    ((case constant_of dec (Type f) of None \<Rightarrow> False | Some v \<Rightarrow> hashable v) \<and> Name f \<noteq> [])"

definition scannable :: "'e decoder \<Rightarrow> 'i iface \<Rightarrow> bool" where
  "scannable dec x =
    (case x of
       INil \<Rightarrow> False
     | IVal t0 v \<Rightarrow>
         Kind (shape t0) = KStruct
         \<and> list_all (usable dec) (marker_fields t0)
         \<and> distinct (map jsonFieldName (marker_fields t0)))"

definition candidate_fields :: "'e decoder \<Rightarrow> 'i iface \<Rightarrow> (string \<times> anyv) list" where
  "candidate_fields dec x = (case x of INil \<Rightarrow> [] | IVal t0 v \<Rightarrow> markers dec t0)"

text \<open>
  A wire name qualifies when every candidate has a marker field of that name and the
  constants are pairwise distinct. \<open>qualifying\<close> lists the qualifying names among the
  names seen.
\<close>

definition qualifies :: "(string \<times> anyv) list list \<Rightarrow> string \<Rightarrow> bool" where
  "qualifies cfs f =
    (list_all (\<lambda>fs. map_of fs f \<noteq> None) cfs \<and> distinct (map (\<lambda>fs. map_of fs f) cfs))"

definition names_seen :: "(string \<times> anyv) list list \<Rightarrow> string list" where
  "names_seen cfs = remdups (concat (map (map fst) cfs))"

definition qualifying :: "(string \<times> anyv) list list \<Rightarrow> string list" where
  "qualifying cfs = filter (qualifies cfs) (names_seen cfs)"


text \<open>The panic of the nil check on a candidate.\<close>

fun is_NilArgument :: "panic \<Rightarrow> bool" where
  "is_NilArgument (NilArgument i U) = True"
| "is_NilArgument p = False"


text \<open>
  What a result of the inference, and a table, say about the candidates when only
  their dynamic types are looked at.
\<close>

definition table_types :: "(anyv \<times> 'i iface) list \<Rightarrow> (anyv \<times> rtype option) list" where
  "table_types bv = map (\<lambda>(k, c). (k, TypeOf c)) bv"

definition discrims_types :: "'i discrims \<Rightarrow> (string \<times> (anyv \<times> rtype option) list) list" where
  "discrims_types d = map (\<lambda>(f, bv). (f, table_types bv)) d"

definition result_types ::
  "panic + string \<times> (anyv \<times> 'i iface) list \<Rightarrow> panic + string \<times> (anyv \<times> rtype option) list" where
  "result_types r = (case r of Inl p \<Rightarrow> Inl p | Inr (f, bv) \<Rightarrow> Inr (f, table_types bv))"

section \<open>Example types and a small codec\<close>

text \<open>
  A decoder for the literals of the examples: a few scalars, \<^verbatim>\<open>null\<close> and the
  content of the pointee for a pointer, and three literals for an interface type. Then
  a conversion to \<^verbatim>\<open>float64\<close> for the integers that \<^verbatim>\<open>float64\<close> holds
  exactly, which are the numbers of the examples, and the identity struct
  \<^verbatim>\<open>struct{ T `const:"lit"` }\<close>.
\<close>

fun example_dec :: "string decoder" where
  "example_dec TBool s =
    (if s = ''true'' then Inr (JBool True)
     else if s = ''false'' then Inr (JBool False)
     else Inl ''invalid boolean'')"
| "example_dec TInt s =
    (if s = ''42'' then Inr (JNumber 42)
     else if s = ''99'' then Inr (JNumber 99)
     else Inl ''invalid integer'')"
| "example_dec TFloat64 s =
    (if s = ''1'' then Inr (JNumber 1)
     else Inl ''invalid number'')"
| "example_dec TString s =
    (if 2 \<le> length s \<and> hd s = CHR 0x22 \<and> last s = CHR 0x22
     then Inr (JString (butlast (tl s)))
     else Inl ''invalid string'')"
| "example_dec (TDefined n t) s = example_dec t s"
| "example_dec (TPointer t) s = (if s = ''null'' then Inr JNull else example_dec t s)"
| "example_dec (TInterface n) s =
    (if s = ''1'' then Inr (JNumber 1)
     else if s = ''[1]'' then Inr (JArray [JNumber 1])
     else if s = ''[2]'' then Inr (JArray [JNumber 2])
     else Inl ''unsupported literal'')"
| "example_dec (TStruct fs emb) s = Inl ''unsupported type''"
| "example_dec (TConst T S) s = Inl ''unsupported type''"

definition example_f64 :: "string float64" where
  "example_f64 r =
    (if of_int \<lfloor>r\<rfloor> = r \<and> \<bar>r\<bar> \<le> 9007199254740992 then Inr r
     else Inl ''number outside the examples'')"

definition marker :: "rtype \<Rightarrow> string \<Rightarrow> rtype" where
  "marker T lit = TStruct [SField ''v'' ''jsondiscrim'' [(''const'', lit)] T] None"

text \<open>
  The types of the package's own examples: \<^verbatim>\<open>Dog\<close> and \<^verbatim>\<open>Cat\<close> carry a string
  constant under the wire name \<^verbatim>\<open>type\<close>; \<^verbatim>\<open>Other\<close> has a plain string there.
  \<^verbatim>\<open>Twin\<close> gives one wire name to two marker fields, and \<^verbatim>\<open>Answer\<close> carries an
  integer constant.
\<close>

definition stringConst :: "string \<Rightarrow> rtype" where
  "stringConst lit = TConst TString (marker TString lit)"

definition Animal :: rtype where
  "Animal = TInterface ''Animal''"

definition Dog :: rtype where
  "Dog = TDefined ''Dog'' (TStruct
     [SField ''Type'' [] [(''json'', ''type'')] (stringConst ''dog''),
      SField ''Bark'' [] [] TString] None)"

definition Cat :: rtype where
  "Cat = TDefined ''Cat'' (TStruct
     [SField ''Type'' [] [(''json'', ''type'')] (stringConst ''cat''),
      SField ''Meow'' [] [] TString] None)"

definition Other :: rtype where
  "Other = TDefined ''Other'' (TStruct
     [SField ''Type'' [] [(''json'', ''type'')] TString,
      SField ''Note'' [] [] TString] None)"


definition Answer :: rtype where
  "Answer = TDefined ''Answer'' (TStruct
     [SField ''Kind'' [] [(''json'', ''kind'')] (TConst TInt (marker TInt ''42'')),
      SField ''Text'' [] [] TString] None)"

definition Plain :: rtype where
  "Plain = TDefined ''Plain'' (TStruct [SField ''Field1'' [] [] TString] None)"

text \<open>
  A stand-in for the codec's decoder into a struct, for the examples: it keeps the
  members of an object, leaves the zero value for \<^verbatim>\<open>null\<close> and rejects every other
  JSON value.
\<close>

definition example_um :: "(string, (string \<times> json) list) unmarshal" where
  "example_um raw e =
    (case raw of
       JObject ms \<Rightarrow> Inr ms
     | JNull \<Rightarrow> Inr []
     | _ \<Rightarrow> Inl ''cannot unmarshal into Go struct'')"

text \<open>The typed nil pointer \<^verbatim>\<open>(*t)(nil)\<close> as a value of the union type.\<close>

definition nil_of :: "rtype \<Rightarrow> (string \<times> json) list iface" where
  "nil_of t = IVal (TPointer t) None"

text \<open>The pointer to an instance of \<open>t\<close> as a value of the union type.\<close>

definition pointer_to :: "rtype \<Rightarrow> (string \<times> json) list \<Rightarrow> (string \<times> json) list iface" where
  "pointer_to t inst = IVal (TPointer t) (Some inst)"



text \<open>The table that the inference builds for \<^verbatim>\<open>(*Dog)(nil), (*Cat)(nil)\<close>.\<close>

definition animal_table :: "(anyv \<times> (string \<times> json) list iface) list" where
  "animal_table =
    [(Any TString (JString ''dog''), nil_of Dog), (Any TString (JString ''cat''), nil_of Cat)]"

text \<open>
  Shapes whose markers are not plain fields of type \<^verbatim>\<open>Const\<close>: \<^verbatim>\<open>Wrapped\<close> is a
  struct that embeds a string constant, and \<^verbatim>\<open>WDog\<close> and \<^verbatim>\<open>WCat\<close> have a field
  of that type under the wire name \<^verbatim>\<open>type\<close>; \<^verbatim>\<open>PtrDog\<close> is \<^verbatim>\<open>Dog\<close> with one
  more field, a pointer to a constant; \<^verbatim>\<open>AnyK\<close> and \<^verbatim>\<open>FloatK\<close> carry the constant
  \<^verbatim>\<open>1\<close>, of type \<^verbatim>\<open>any\<close> and of type \<^verbatim>\<open>float64\<close>.
\<close>

definition Wrapped :: "string \<Rightarrow> rtype" where
  "Wrapped lit = TDefined ''Wrapped'' (TStruct
     [SField ''Const'' [] [] (stringConst lit)] (Some (stringConst lit)))"

definition WDog :: rtype where
  "WDog = TDefined ''WDog'' (TStruct
     [SField ''Type'' [] [(''json'', ''type'')] (Wrapped ''dog''),
      SField ''Bark'' [] [] TString] None)"

definition WCat :: rtype where
  "WCat = TDefined ''WCat'' (TStruct
     [SField ''Type'' [] [(''json'', ''type'')] (Wrapped ''cat''),
      SField ''Meow'' [] [] TString] None)"

definition PtrDog :: rtype where
  "PtrDog = TDefined ''PtrDog'' (TStruct
     [SField ''Type'' [] [(''json'', ''type'')] (stringConst ''dog''),
      SField ''Extra'' [] [] (TPointer (stringConst ''x''))] None)"

definition AnyK :: rtype where
  "AnyK = TDefined ''AnyK'' (TStruct
     [SField ''K'' [] [(''json'', ''k'')]
        (TConst (TInterface ''any'') (marker (TInterface ''any'') ''1''))] None)"

definition FloatK :: rtype where
  "FloatK = TDefined ''FloatK'' (TStruct
     [SField ''K'' [] [(''json'', ''k'')] (TConst TFloat64 (marker TFloat64 ''1''))] None)"

section \<open>The memo table is transparent\<close>


lemma makeConstInfo_tparam:
  "makeConstInfo dec T S = Inr info \<Longrightarrow> tparam info = T \<and> valueType info = T"
  by (auto simp: makeConstInfo_def split: if_splits option.splits sum.splits)

lemma makeConstInfo_field_type:
  "makeConstInfo dec T S = Inr info \<Longrightarrow> Type (Field S 0) = T"
  by (auto simp: makeConstInfo_def split: if_splits option.splits sum.splits)

lemma Value_hit:
  "m S = Some info0 \<Longrightarrow> Value dec T S m =
     (if tparam info0 \<noteq> T then (Inl (ConstTypeMismatch (valueType info0) T), m)
      else (Inr (cvalue info0), m))"
  by (subst Value.simps) simp

lemma Value_miss_panic:
  "m S = None \<Longrightarrow> makeConstInfo dec T S = Inl p \<Longrightarrow> Value dec T S m = (Inl p, m)"
  by (subst Value.simps) simp

lemma Value_miss_store:
  assumes "m S = None" and "makeConstInfo dec T S = Inr info"
  shows "Value dec T S m = (Inr (cvalue info), m(S \<mapsto> info))"
proof -
  have t: "tparam info = T" using assms(2) by (simp add: makeConstInfo_tparam)
  have "Value dec T S m = Value dec T S (m(S \<mapsto> info))"
    using assms by (subst Value.simps) (simp add: LoadOrStore_def)
  also have "\<dots> = (Inr (cvalue info), m(S \<mapsto> info))"
    using t by (simp add: Value_hit)
  finally show ?thesis .
qed

lemma Value_memo_ok_Inr:
  assumes "memo_ok dec m" and "makeConstInfo dec T S = Inr info"
  shows "Value dec T S m = (Inr (cvalue info), m(S \<mapsto> info))"
proof (cases "m S")
  case None
  then show ?thesis using assms(2) by (rule Value_miss_store)
next
  case (Some info0)
  with assms(1) have ok: "makeConstInfo dec (tparam info0) S = Inr info0"
    by (simp add: memo_ok_def)
  then have "Type (Field S 0) = tparam info0" by (rule makeConstInfo_field_type)
  moreover have "Type (Field S 0) = T" using assms(2) by (rule makeConstInfo_field_type)
  ultimately have t: "tparam info0 = T" by simp
  with ok assms(2) have "info0 = info" by simp
  then have "m(S \<mapsto> info) = m" using Some by (simp add: fun_upd_idem)
  then show ?thesis using Some t \<open>info0 = info\<close> by (simp add: Value_hit)
qed

lemma Value_memo_ok_Inl:
  assumes "memo_ok dec m" and "makeConstInfo dec T S = Inl p"
  shows "\<exists>p'. Value dec T S m = (Inl p', m)"
proof (cases "m S")
  case None
  then show ?thesis using assms(2) by (simp add: Value_miss_panic)
next
  case (Some info0)
  with assms(1) have ok: "makeConstInfo dec (tparam info0) S = Inr info0"
    by (simp add: memo_ok_def)
  have "tparam info0 \<noteq> T"
  proof
    assume "tparam info0 = T"
    with ok assms(2) show False by simp
  qed
  then show ?thesis using Some by (simp add: Value_hit)
qed

lemma memo_ok_store:
  "memo_ok dec m \<Longrightarrow> makeConstInfo dec T S = Inr info \<Longrightarrow> memo_ok dec (m(S \<mapsto> info))"
  by (auto simp: memo_ok_def dest: makeConstInfo_tparam)

lemma Value_preserves_memo_ok:
  assumes "memo_ok dec m"
  shows "memo_ok dec (snd (Value dec T S m))"
proof (cases "makeConstInfo dec T S")
  case (Inl p)
  with assms Value_memo_ok_Inl [OF assms Inl] show ?thesis by auto
next
  case (Inr info)
  with assms show ?thesis by (simp add: Value_memo_ok_Inr memo_ok_store)
qed


lemma makeConstInfo_marker_string:
  "makeConstInfo example_dec TString (marker TString lit) = Inr (ConstInfo TString TString (JString lit))"
  by (simp add: makeConstInfo_def marker_def NumField_def Field_def Lookup_def)

section \<open>What the two loops of the inference compute\<close>





lemma is_marker_cases:
  "is_marker t \<Longrightarrow> constValue_method t = Some NilPointer \<or> (\<exists>T S. constValue_method t = Some (ZeroConst T S))"
  by (cases "constValue_method t") (auto simp: is_marker_def intro: receiver.exhaust)















lemma add_fields_panic:
  "add_fields es c d = Inl p \<Longrightarrow> \<exists>v. p = UnhashableType v"
  by (induction es c d rule: add_fields.induct) (auto simp: Let_def split: if_splits)





















section \<open>Evaluating the examples\<close>

lemmas animal_defs = Dog_def Cat_def Animal_def stringConst_def marker_def nil_of_def

lemmas model_defs = makeConstInfo_def NumField_def Field_def Lookup_def Get_def
  jsonFieldName_def Elem_def constFields_def constValue_def box_def TypeOf_def isNil_def
  range_map_def determineDiscriminator_def Let_def Value.simps LoadOrStore_def

lemmas infer_defs = scannable_def usable_def shape_def is_marker_def constant_of_def
  marker_fields_def markers_def markers_of_def candidate_fields_def qualifies_def
  names_seen_def qualifying_def

lemma permutes_id: "permutes (\<lambda>ks. ks)"
  by (simp add: permutes_def)





section \<open>Where the nil-argument panic comes from\<close>

lemma makeConstInfo_panic: "makeConstInfo dec T S = Inl p \<Longrightarrow> \<not> is_NilArgument p"
  by (auto simp: makeConstInfo_def split: if_splits option.splits sum.splits)

lemma Value_panic: "fst (Value dec T S m) = Inl p \<Longrightarrow> \<not> is_NilArgument p"
proof (cases "m S")
  case None
  assume a: "fst (Value dec T S m) = Inl p"
  show ?thesis
  proof (cases "makeConstInfo dec T S")
    case (Inl q)
    with None a show ?thesis by (auto simp: Value_miss_panic dest: makeConstInfo_panic)
  next
    case (Inr info)
    with None a show ?thesis by (simp add: Value_miss_store)
  qed
next
  case (Some info0)
  assume "fst (Value dec T S m) = Inl p"
  with Some show ?thesis by (auto simp: Value_hit split: if_splits)
qed

lemma constFields_loop_panic:
  "fst (constFields_loop dec t0 fs acc m) = Inl p \<Longrightarrow> \<not> is_NilArgument p"
proof (induction fs arbitrary: acc m)
  case Nil
  then show ?case by simp
next
  case (Cons f fs)
  show ?case
  proof (cases "PkgPath f = [] \<and> is_marker (Type f)")
    case False
    then have "constFields_loop dec t0 (f # fs) acc m = constFields_loop dec t0 fs acc m"
      by (auto simp: is_marker_def)
    with Cons show ?thesis by simp
  next
    case True
    then obtain fv where fv: "constValue_method (Type f) = Some fv"
      by (auto simp: is_marker_def)
    show ?thesis
    proof (cases "map_of acc (jsonFieldName f) \<noteq> None")
      case True
      with \<open>PkgPath f = [] \<and> is_marker (Type f)\<close> fv Cons.prems show ?thesis
        by (auto simp: Let_def)
    next
      case False
      show ?thesis
      proof (cases fv)
        case NilPointer
        with False True fv Cons.prems show ?thesis by (auto simp: Let_def)
      next
        case (ZeroConst T S)
        obtain r m1 where v: "Value dec T S m = (r, m1)" by (cases "Value dec T S m")
        show ?thesis
        proof (cases r)
          case (Inl q)
          with v have "fst (Value dec T S m) = Inl q" by simp
          then have "\<not> is_NilArgument q" by (rule Value_panic)
          with Inl v False True fv ZeroConst Cons.prems show ?thesis
            by (auto simp: Let_def constValue_def)
        next
          case (Inr c)
          with v False True fv ZeroConst Cons.prems Cons.IH show ?thesis
            by (auto simp: Let_def constValue_def)
        qed
      qed
    qed
  qed
qed

lemma constFields_panic:
  "fst (constFields dec t m) = Inl p \<Longrightarrow> \<not> is_NilArgument p"
  by (auto simp: constFields_def Elem_def split: option.splits sum.splits if_splits rtype.splits
      dest: constFields_loop_panic)

lemma collect_NilArgument:
  "fst (collect dec ord U i xs d m) = Inl (NilArgument j U')
     \<Longrightarrow> U' = U \<and> i \<le> j \<and> j - i < length xs \<and> xs ! (j - i) = INil"
proof (induction xs arbitrary: i d m)
  case Nil
  then show ?case by simp
next
  case (Cons x xs)
  show ?case
  proof (cases "isNil x")
    case True
    with Cons.prems show ?thesis by (cases x) (auto simp: isNil_def)
  next
    case False
    obtain r m1 where c: "constFields dec (TypeOf x) m = (r, m1)"
      by (cases "constFields dec (TypeOf x) m")
    show ?thesis
    proof (cases r)
      case (Inl q)
      with c have "fst (constFields dec (TypeOf x) m) = Inl q" by simp
      then have "\<not> is_NilArgument q" by (rule constFields_panic)
      with Inl c False Cons.prems show ?thesis by auto
    next
      case (Inr fields)
      show ?thesis
      proof (cases "add_fields (range_map ord fields) x d")
        case (Inl q)
        from add_fields_panic [OF this] obtain w where "q = UnhashableType w" ..
        with Inl Inr c False Cons.prems show ?thesis by simp
      next
        case d1: (Inr d')
        with Inr c False Cons.prems
        have "fst (collect dec ord U (Suc i) xs d' m1) = Inl (NilArgument j U')" by simp
        from Cons.IH [OF this] have h: "U' = U" "Suc i \<le> j" "j - Suc i < length xs"
          "xs ! (j - Suc i) = INil" by auto
        from h(2) have "j - i = Suc (j - Suc i)" by simp
        with h show ?thesis by simp
      qed
    qed
  qed
qed

lemma select_panic: "select n es df dbv = Inl p \<Longrightarrow> \<not> is_NilArgument p"
  by (induction n es df dbv rule: select.induct) (auto split: if_splits)

lemma determineDiscriminator_NilArgument:
  assumes "fst (determineDiscriminator dec ord U choices m) = Inl (NilArgument j U')"
  shows "U' = U \<and> j < length choices \<and> choices ! j = INil"
proof -
  obtain r m1 where c: "collect dec ord U 0 choices [] m = (r, m1)"
    by (cases "collect dec ord U 0 choices [] m")
  show ?thesis
  proof (cases r)
    case (Inl q)
    with c assms have "fst (collect dec ord U 0 choices [] m) = Inl (NilArgument j U')"
      by (simp add: determineDiscriminator_def)
    from collect_NilArgument [OF this] show ?thesis by simp
  next
    case (Inr d')
    with c assms show ?thesis
      by (auto simp: determineDiscriminator_def split: sum.splits prod.splits if_splits
          dest: select_panic)
  qed
qed
section \<open>The earlier implementation against the current one\<close>

lemma old_constFields_loop_eq:
  "old_constFields_loop dec t0 fs acc m = constFields_loop dec t0 fs acc m"
proof (induction fs arbitrary: acc m)
  case Nil
  then show ?case by simp
next
  case (Cons f fs)
  show ?case
    by (auto simp: Cons.IH jsonFieldName_def Let_def
        split: prod.splits sum.splits option.splits receiver.splits)
qed

lemma old_constFields_eq: "old_constFields dec t m = constFields dec t m"
  by (simp add: old_constFields_def constFields_def old_constFields_loop_eq
      split: option.splits sum.splits)

lemma old_fieldValue_loop_eq: "old_fieldValue_loop f64 seen ms f = fieldValue_loop f64 seen ms f"
  by (induction f64 seen ms f rule: fieldValue_loop.induct) (auto split: sum.splits)

lemma old_fieldValue_eq: "old_fieldValue f64 raw f = fieldValue f64 raw f"
  by (simp add: old_fieldValue_def fieldValue_def old_fieldValue_loop_eq split: json.splits)

lemma old_select_eq: "old_select n es df dbv = select n es df dbv"
  by (induction n es df dbv rule: select.induct) auto

lemma old_collect_eq:
  "INil \<notin> set xs \<Longrightarrow> old_collect dec ord xs d m = collect dec ord U i xs d m"
proof (induction xs arbitrary: d m i)
  case Nil
  then show ?case by simp
next
  case (Cons x xs)
  then have "\<not> isNil x" by (cases x) (auto simp: isNil_def)
  with Cons show ?case
    by (auto simp: old_constFields_eq split: prod.splits sum.splits)
qed

lemma collect_append:
  "collect dec ord U i (xs @ zs) d m =
     (case collect dec ord U i xs d m of
        (Inl p, m') \<Rightarrow> (Inl p, m')
      | (Inr d', m') \<Rightarrow> collect dec ord U (i + length xs) zs d' m')"
  by (induction xs arbitrary: i d m) (auto split: prod.splits sum.splits)

lemma old_collect_append:
  "old_collect dec ord (xs @ zs) d m =
     (case old_collect dec ord xs d m of
        (Inl p, m') \<Rightarrow> (Inl p, m')
      | (Inr d', m') \<Rightarrow> old_collect dec ord zs d' m')"
  by (induction xs arbitrary: d m) (auto split: prod.splits sum.splits)

lemma collect_first_nil:
  "collect dec ord U 0 (xs @ INil # ys) [] m =
     (case collect dec ord U 0 xs [] m of
        (Inl p, m') \<Rightarrow> (Inl p, m')
      | (Inr d', m') \<Rightarrow> (Inl (NilArgument (length xs) U), m'))"
  by (simp add: collect_append isNil_def split: prod.splits sum.splits)

lemma old_collect_first_nil:
  assumes "INil \<notin> set xs"
  shows "old_collect dec ord (xs @ INil # ys) [] m =
     (case collect dec ord U 0 xs [] m of
        (Inl p, m') \<Rightarrow> (Inl p, m')
      | (Inr d', m') \<Rightarrow> (Inl NilPointerDereference, m'))"
  by (simp add: old_collect_append old_collect_eq [OF assms, of dec ord "[]" m U 0]
      old_constFields_def TypeOf_def split: prod.splits sum.splits)

lemma old_discriminator_eq:
  "INil \<notin> set choices \<Longrightarrow> old_discriminator dec ord choices m = determineDiscriminator dec ord U choices m"
  by (simp add: old_discriminator_def determineDiscriminator_def old_select_eq
      old_collect_eq [where U = U and i = 0] split: prod.splits sum.splits)

lemma old_unmarshal_eq:
  "f \<noteq> [] \<Longrightarrow> old_unmarshal um f64 f bv = unmarshal_discrim um f64 f bv False fb"
  by (intro ext)
     (auto simp: old_unmarshal_def unmarshal_discrim_def choose_zero_def old_fieldValue_eq
       split: sum.splits option.splits)

lemma determineDiscriminator_nonempty:
  "determineDiscriminator dec ord U choices m = (Inr (f, bv), m') \<Longrightarrow> f \<noteq> []"
  by (auto simp: determineDiscriminator_def split: prod.splits sum.splits if_splits)

section \<open>The decode routines\<close>

lemma StructsWithFallback_discriminated:
  assumes "fst (StructsWithFallback dec um f64 ord U fallback choices m) = Inr u" and "choices \<noteq> []"
  shows "\<exists>f bv m'. determineDiscriminator dec ord U choices m = (Inr (f, bv), m') \<and> f \<noteq> []
           \<and> u = unmarshal_discrim um f64 f bv (\<not> isNil fallback) fallback"
proof -
  obtain r m' where d: "determineDiscriminator dec ord U choices m = (r, m')"
    by (cases "determineDiscriminator dec ord U choices m")
  show ?thesis
  proof (cases r)
    case (Inl p)
    with d assms show ?thesis
      by (simp add: StructsWithFallback_def Let_def split: if_splits)
  next
    case (Inr fb)
    obtain f bv where fb: "fb = (f, bv)" by (cases fb)
    with d Inr have ne: "f \<noteq> []" by (auto dest: determineDiscriminator_nonempty)
    with d Inr fb assms have "u = unmarshal_discrim um f64 f bv (\<not> isNil fallback) fallback"
      by (simp add: StructsWithFallback_def Let_def split: if_splits)
    with d Inr fb ne show ?thesis by blast
  qed
qed

lemma StructsWithFallback_direct:
  assumes "fst (StructsWithFallback dec um f64 ord U fallback [] m) = Inr u"
  shows "u = unmarshal_direct um fallback \<and> \<not> isNil fallback"
  using assms by (simp add: StructsWithFallback_def Let_def split: if_splits)

lemma unmarshal_discrim_atomic:
  "(fst (unmarshal_discrim um f64 f bv hf fb d src) = Returned () \<longrightarrow>
      (\<exists>raw e inst. d = Inr raw \<and> um raw e = Inr inst
          \<and> snd (unmarshal_discrim um f64 f bv hf fb d src) = IVal (TPointer e) (Some inst)))
   \<and> (fst (unmarshal_discrim um f64 f bv hf fb d src) \<noteq> Returned () \<longrightarrow>
        snd (unmarshal_discrim um f64 f bv hf fb d src) = src)"
  by (auto simp: unmarshal_discrim_def split: sum.splits result.splits)

lemma unmarshal_direct_atomic:
  "(fst (unmarshal_direct um fb d src) = Returned () \<longrightarrow>
      (\<exists>raw e inst. d = Inr raw \<and> um raw e = Inr inst
          \<and> snd (unmarshal_direct um fb d src) = IVal (TPointer e) (Some inst)))
   \<and> (fst (unmarshal_direct um fb d src) \<noteq> Returned () \<longrightarrow>
        snd (unmarshal_direct um fb d src) = src)"
  by (auto simp: unmarshal_direct_def UnmarshalDecode_def Let_def split: sum.splits)

lemmas dispatch_defs = StructsWithFallback_def Structs_def unmarshal_discrim_def
  unmarshal_direct_def choose_zero_def fieldValue_def decode_any_def SkipValue_def
  index_any_def New_Elem_def UnmarshalDecode_def

lemma built_animals_fallback:
  "fst (StructsWithFallback example_dec example_um example_f64 rev Animal (nil_of Other)
          [nil_of Dog, nil_of Cat] Map.empty)
     = Inr (unmarshal_discrim example_um example_f64 ''type'' animal_table True (nil_of Other))"
  by (simp add: model_defs animal_defs StructsWithFallback_def animal_table_def)

lemma built_animals:
  "fst (Structs example_dec example_um example_f64 rev Animal [nil_of Dog, nil_of Cat] Map.empty)
     = Inr (unmarshal_discrim example_um example_f64 ''type'' animal_table False INil)"
  by (simp add: model_defs animal_defs StructsWithFallback_def Structs_def animal_table_def)

lemma fieldValue_loop_distinct:
  fixes f64 :: "'e float64"
  assumes "distinct (map fst ms)" and "set seen \<inter> fst ` set ms = {}"
    and "\<forall>e \<in> set ms. fst e \<noteq> f \<longrightarrow> (SkipValue (snd e) :: 'e error + unit) = Inr ()"
  shows "fieldValue_loop f64 seen ms f =
     (case map_of ms f of None \<Rightarrow> Inl (FieldNotFound f) | Some v \<Rightarrow> decode_any f64 v)"
  using assms
proof (induction ms arbitrary: seen)
  case Nil
  then show ?case by simp
next
  case (Cons e ms)
  obtain n v where e: "e = (n, v)" by (cases e)
  from Cons.prems e have ns: "n \<notin> set seen" by auto
  show ?case
  proof (cases "n = f")
    case True
    with ns show ?thesis by (simp add: e)
  next
    case False
    with Cons.prems(3) e have sk: "(SkipValue v :: 'e error + unit) = Inr ()" by simp
    from Cons.prems e have d: "distinct (map fst ms)"
      and s: "set (n # seen) \<inter> fst ` set ms = {}"
      and r: "\<forall>e \<in> set ms. fst e \<noteq> f \<longrightarrow> (SkipValue (snd e) :: 'e error + unit) = Inr ()"
      by auto
    from Cons.IH [OF d s r] False ns sk show ?thesis by (simp add: e)
  qed
qed

lemma fieldValue_distinct:
  fixes f64 :: "'e float64"
  assumes "distinct (map fst ms)"
    and "\<forall>e \<in> set ms. fst e \<noteq> f \<longrightarrow> (SkipValue (snd e) :: 'e error + unit) = Inr ()"
  shows "fieldValue f64 (JObject ms) f =
     (case map_of ms f of None \<Rightarrow> Inl (FieldNotFound f) | Some v \<Rightarrow> decode_any f64 v)"
  using fieldValue_loop_distinct [OF assms(1) _ assms(2), of "[]" f64]
  by (simp add: fieldValue_def)

lemma fieldValue_member_order:
  fixes f64 :: "'e float64"
  assumes "distinct (map fst ms)" and "distinct (map fst ms')" and "set ms = set ms'"
    and "\<forall>e \<in> set ms. fst e \<noteq> f \<longrightarrow> (SkipValue (snd e) :: 'e error + unit) = Inr ()"
  shows "fieldValue f64 (JObject ms) f = fieldValue f64 (JObject ms') f"
proof -
  from assms have "map_of ms = map_of ms'" by (simp add: map_of_inject_set)
  moreover from assms(3,4)
  have "\<forall>e \<in> set ms'. fst e \<noteq> f \<longrightarrow> (SkipValue (snd e) :: 'e error + unit) = Inr ()" by simp
  ultimately show ?thesis
    by (simp add: fieldValue_distinct [OF assms(1,4)] fieldValue_distinct [OF assms(2)])
qed

lemma unmarshal_discrim_known:
  fixes um :: "('e, 'i) unmarshal"
  assumes "f \<noteq> []" and "fieldValue f64 raw f = Inr v" and "index_any bv v = Inr (Some (IVal t p))"
    and "Elem t = Inr e"
  shows "unmarshal_discrim um f64 f bv hf fb (Inr raw) src =
     (case um raw e of
        Inl err \<Rightarrow> (Failed (CodecError err), src)
      | Inr inst \<Rightarrow> (Returned (), IVal (TPointer e) (Some inst)))"
  using assms by (simp add: unmarshal_discrim_def choose_zero_def New_Elem_def TypeOf_def)

lemma unmarshal_discrim_unknown:
  fixes um :: "('e, 'i) unmarshal"
  assumes "f \<noteq> []" and "fieldValue f64 raw f = Inr v" and "index_any bv v = Inr None"
  shows "unmarshal_discrim um f64 f bv False fb (Inr raw) src = (Failed (UnknownDiscriminator v), src)"
    and "unmarshal_discrim um f64 f bv True (IVal (TPointer e) p) (Inr raw) src =
     (case um raw e of
        Inl err \<Rightarrow> (Failed (CodecError err), src)
      | Inr inst \<Rightarrow> (Returned (), IVal (TPointer e) (Some inst)))"
  using assms
  by (simp_all add: unmarshal_discrim_def choose_zero_def New_Elem_def TypeOf_def Elem_def)

lemma unmarshal_discrim_missing:
  fixes um :: "('e, 'i) unmarshal"
  assumes "f \<noteq> []" and "fieldValue f64 raw f = Inl (FieldNotFound f)"
  shows "unmarshal_discrim um f64 f bv False fb (Inr raw) src = (Failed (FieldNotFound f), src)"
    and "unmarshal_discrim um f64 f bv True (IVal (TPointer e) p) (Inr raw) src =
     (case um raw e of
        Inl err \<Rightarrow> (Failed (CodecError err), src)
      | Inr inst \<Rightarrow> (Returned (), IVal (TPointer e) (Some inst)))"
  using assms
  by (simp_all add: unmarshal_discrim_def choose_zero_def New_Elem_def TypeOf_def Elem_def)

lemma dispatch_round_trip:
  fixes um :: "('e, 'i) unmarshal" and f64 :: "'e float64"
  assumes "f \<noteq> []" and "distinct (map fst ms)"
    and "\<forall>e \<in> set ms. fst e \<noteq> f \<longrightarrow> (SkipValue (snd e) :: 'e error + unit) = Inr ()"
    and "map_of ms f = Some j" and "decode_any f64 j = Inr k"
    and "index_any bv k = Inr (Some (IVal (TPointer e) p))"
    and "um (JObject ms) e = Inr inst"
  shows "unmarshal_discrim um f64 f bv hf fb (Inr (JObject ms)) src
           = (Returned (), IVal (TPointer e) (Some inst))"
proof -
  have fv: "fieldValue f64 (JObject ms) f = Inr k"
    using assms(4,5) by (simp add: fieldValue_distinct [OF assms(2,3)])
  have el: "Elem (TPointer e) = Inr e" by (simp add: Elem_def)
  from unmarshal_discrim_known [OF assms(1) fv assms(6) el, of um hf fb src] assms(7)
  show ?thesis by simp
qed

lemma dispatch_member_order:
  fixes um :: "('e, 'i) unmarshal" and f64 :: "'e float64"
  assumes "distinct (map fst ms)" and "distinct (map fst ms')" and "set ms = set ms'"
    and "\<forall>e \<in> set ms. fst e \<noteq> f \<longrightarrow> (SkipValue (snd e) :: 'e error + unit) = Inr ()"
    and "\<And>e. um (JObject ms) e = um (JObject ms') e"
  shows "unmarshal_discrim um f64 f bv hf fb (Inr (JObject ms)) src
           = unmarshal_discrim um f64 f bv hf fb (Inr (JObject ms')) src"
proof -
  have "fieldValue f64 (JObject ms) f = fieldValue f64 (JObject ms') f"
    by (rule fieldValue_member_order [OF assms(1-4)])
  then show ?thesis
    by (simp add: unmarshal_discrim_def choose_zero_def assms(5)
        cong: sum.case_cong result.case_cong)
qed

section \<open>Markers that are not plain fields\<close>

text \<open>
  A field whose type is a struct that embeds a constant is a marker: the inference
  over \<^verbatim>\<open>(*WDog)(nil), (*WCat)(nil)\<close> finds the field \<^verbatim>\<open>type\<close>. A field whose type
  is a pointer to a constant is a marker as well, and the call of \<^verbatim>\<open>constValue\<close> on
  its zero value, a nil pointer, panics. A constant of type \<^verbatim>\<open>any\<close> is stored under
  the dynamic type of its value, so the constants \<^verbatim>\<open>1\<close> of type \<^verbatim>\<open>any\<close> and of
  type \<^verbatim>\<open>float64\<close> are one key.
\<close>

lemma embedded_marker_seen:
  "fst (determineDiscriminator example_dec rev Animal [nil_of WDog, nil_of WCat] Map.empty)
     = Inr (''type'', [(Any TString (JString ''dog''), nil_of WDog),
                       (Any TString (JString ''cat''), nil_of WCat)])"
  by (simp add: model_defs animal_defs WDog_def WCat_def Wrapped_def)

lemma pointer_marker_panics:
  "is_marker (TPointer (stringConst ''x''))
   \<and> \<not> scannable example_dec (nil_of PtrDog)
   \<and> fst (determineDiscriminator example_dec rev Animal [nil_of PtrDog, nil_of Cat] Map.empty)
       = Inl NilPointerDereference"
  by (simp add: model_defs infer_defs animal_defs PtrDog_def)

lemma interface_constant_key:
  "map_of (candidate_fields example_dec (nil_of AnyK)) ''k'' = Some (Any TFloat64 (JNumber 1))
   \<and> map_of (candidate_fields example_dec (nil_of FloatK)) ''k'' = Some (Any TFloat64 (JNumber 1))
   \<and> qualifying (map (candidate_fields example_dec) [nil_of AnyK, nil_of FloatK]) = []
   \<and> fst (determineDiscriminator example_dec rev Animal [nil_of AnyK, nil_of FloatK] Map.empty)
       = Inl (CannotDetermine [''k''])"
  by (simp add: model_defs infer_defs animal_defs AnyK_def FloatK_def)

section \<open>Equality of constants\<close>



section \<open>The candidates are looked at through their types\<close>

lemma table_types_update:
  "table_types (AList.update k c bv) = AList.update k (TypeOf c) (table_types bv)"
  by (induction bv) (auto simp: table_types_def)

lemma table_types_length: "length (table_types bv) = length bv"
  by (simp add: table_types_def)

lemma map_of_table_types: "map_of (table_types bv) k = map_option TypeOf (map_of bv k)"
  by (induction bv) (auto simp: table_types_def)

lemma discrims_types_update:
  "discrims_types (AList.update f bv d) = AList.update f (table_types bv) (discrims_types d)"
  by (induction d) (auto simp: discrims_types_def)

lemma map_of_discrims_types:
  "map_of (discrims_types d) f = map_option table_types (map_of d f)"
  by (induction d) (auto simp: discrims_types_def)

lemma discrims_types_keys: "map fst (discrims_types d) = map fst d"
  by (induction d) (auto simp: discrims_types_def)

lemma discrims_types_byValue:
  assumes "discrims_types d = discrims_types d'"
  shows "table_types (case map_of d f of None \<Rightarrow> [] | Some bv \<Rightarrow> bv)
       = table_types (case map_of d' f of None \<Rightarrow> [] | Some bv \<Rightarrow> bv)"
proof -
  from assms have "map_option table_types (map_of d f) = map_option table_types (map_of d' f)"
    by (simp add: map_of_discrims_types [symmetric])
  then show ?thesis
    by (cases "map_of d f"; cases "map_of d' f") (auto simp: table_types_def)
qed

lemma add_fields_types:
  assumes "discrims_types d = discrims_types d'" and "TypeOf c = TypeOf c'"
  shows "(case add_fields es c d of
            Inl p \<Rightarrow> add_fields es c' d' = Inl p
          | Inr d1 \<Rightarrow> (\<exists>d1'. add_fields es c' d' = Inr d1' \<and> discrims_types d1 = discrims_types d1'))"
  using assms(1)
proof (induction es arbitrary: d d')
  case Nil
  then show ?case by simp
next
  case (Cons e es)
  obtain f v where e: "e = (f, v)" by (cases e)
  let ?bv = "case map_of d f of None \<Rightarrow> [] | Some bv \<Rightarrow> bv"
  let ?bv' = "case map_of d' f of None \<Rightarrow> [] | Some bv \<Rightarrow> bv"
  show ?case
  proof (cases "hashable v")
    case False
    then show ?thesis by (simp add: e Let_def)
  next
    case True
    have "discrims_types (AList.update f (AList.update v c ?bv) d)
        = discrims_types (AList.update f (AList.update v c' ?bv') d')"
      using discrims_types_byValue [OF Cons.prems, of f] Cons.prems assms(2)
      by (simp add: discrims_types_update table_types_update)
    from Cons.IH [OF this] True show ?thesis
      by (simp add: e Let_def split: sum.splits)
  qed
qed

lemma collect_types:
  assumes "discrims_types d = discrims_types d'" and "map TypeOf xs = map TypeOf ys"
  shows "(case collect dec ord U i xs d m of
            (Inl p, m1) \<Rightarrow> collect dec ord U i ys d' m = (Inl p, m1)
          | (Inr d1, m1) \<Rightarrow>
              (\<exists>d1'. collect dec ord U i ys d' m = (Inr d1', m1)
                 \<and> discrims_types d1 = discrims_types d1'))"
  using assms
proof (induction xs arbitrary: ys d d' m i)
  case Nil
  then show ?case by simp
next
  case (Cons x xs)
  from Cons.prems(2) obtain y ys' where ys: "ys = y # ys'" and ty: "TypeOf x = TypeOf y"
    and rest: "map TypeOf xs = map TypeOf ys'" by (cases ys) auto
  have nil: "isNil x = isNil y"
    using ty by (cases x; cases y) (auto simp: isNil_def TypeOf_def)
  show ?case
  proof (cases "isNil x")
    case True
    with nil show ?thesis by (simp add: ys)
  next
    case False
    obtain r m1 where c: "constFields dec (TypeOf x) m = (r, m1)"
      by (cases "constFields dec (TypeOf x) m")
    show ?thesis
    proof (cases r)
      case (Inl p)
      with c False nil ty show ?thesis by (simp add: ys)
    next
      case (Inr fields)
      from add_fields_types [OF Cons.prems(1) ty, of "range_map ord fields"]
      show ?thesis
      proof (cases "add_fields (range_map ord fields) x d")
        case l: (Inl p)
        with add_fields_types [OF Cons.prems(1) ty, of "range_map ord fields"]
        have "add_fields (range_map ord fields) y d' = Inl p" by simp
        with l c Inr False nil ty show ?thesis by (simp add: ys)
      next
        case r: (Inr d1)
        with add_fields_types [OF Cons.prems(1) ty, of "range_map ord fields"]
        obtain d1' where a: "add_fields (range_map ord fields) y d' = Inr d1'"
          and t: "discrims_types d1 = discrims_types d1'" by auto
        from Cons.IH [OF t rest, of "Suc i" m1] r a c Inr False nil ty
        show ?thesis by (simp add: ys split: prod.splits sum.splits)
      qed
    qed
  qed
qed

lemma range_map_types:
  "discrims_types (range_map ord d) = range_map ord (discrims_types d)"
proof -
  have "\<And>ks. discrims_types (List.map_filter (\<lambda>k. map_option (Pair k) (map_of d k)) ks)
      = List.map_filter (\<lambda>k. map_option (Pair k) (map_of (discrims_types d) k)) ks"
  proof -
    fix ks
    show "discrims_types (List.map_filter (\<lambda>k. map_option (Pair k) (map_of d k)) ks)
      = List.map_filter (\<lambda>k. map_option (Pair k) (map_of (discrims_types d) k)) ks"
    proof (induction ks)
      case Nil
      show ?case by (simp add: discrims_types_def)
    next
      case (Cons k ks)
      from Cons have IH: "discrims_types (List.map_filter (\<lambda>k. map_option (Pair k) (map_of d k)) ks)
        = List.map_filter (\<lambda>k. map_option (Pair k) (map_of (discrims_types d) k)) ks" .
      show ?case
      proof (cases "map_of d k")
        case None
        with IH show ?thesis by (simp add: map_of_discrims_types)
      next
        case (Some bv)
        have "discrims_types ((k, bv) # List.map_filter (\<lambda>k. map_option (Pair k) (map_of d k)) ks)
            = (k, table_types bv) # discrims_types (List.map_filter (\<lambda>k. map_option (Pair k) (map_of d k)) ks)"
          by (simp add: discrims_types_def)
        with Some IH show ?thesis by (simp add: map_of_discrims_types)
      qed
    qed
  qed
  then show ?thesis by (simp add: range_map_def discrims_types_keys)
qed

lemma select_types:
  assumes "discrims_types es = discrims_types es'" and "table_types dbv = table_types dbv'"
  shows "result_types (select n es df dbv) = result_types (select n es' df dbv')"
  using assms
proof (induction es arbitrary: es' df dbv dbv')
  case Nil
  then have "es' = []" by (simp add: discrims_types_def)
  with Nil show ?case by (simp add: result_types_def)
next
  case (Cons e es)
  obtain f bv where e: "e = (f, bv)" by (cases e)
  from Cons.prems(1) e obtain bv' es'' where es': "es' = (f, bv') # es''"
    and tb: "table_types bv = table_types bv'"
    and rest: "discrims_types es = discrims_types es''"
    by (cases es') (auto simp: discrims_types_def)
  from tb have len: "length bv = length bv'"
    using table_types_length [of bv] table_types_length [of bv'] by simp
  show ?case
    using Cons.IH [OF rest Cons.prems(2), of df] Cons.IH [OF rest tb, of f] len
    by (simp add: e es' result_types_def)
qed

lemma determineDiscriminator_types:
  assumes "map TypeOf xs = map TypeOf ys"
  shows "result_types (fst (determineDiscriminator dec ord U xs m))
           = result_types (fst (determineDiscriminator dec ord U ys m))"
    and "snd (determineDiscriminator dec ord U xs m) = snd (determineDiscriminator dec ord U ys m)"
proof -
  from assms have len: "length xs = length ys" by (rule map_eq_imp_length_eq)
  have e0: "discrims_types [] = discrims_types []" by (simp add: discrims_types_def)
  have t0: "table_types [] = table_types []" by (simp add: table_types_def)
  obtain r m1 where c: "collect dec ord U 0 xs [] m = (r, m1)"
    by (cases "collect dec ord U 0 xs [] m")
  have both: "result_types (fst (determineDiscriminator dec ord U xs m))
           = result_types (fst (determineDiscriminator dec ord U ys m))
      \<and> snd (determineDiscriminator dec ord U xs m) = snd (determineDiscriminator dec ord U ys m)"
  proof (cases r)
    case (Inl p)
    with c collect_types [OF e0 assms, of dec ord U 0 m]
    have "collect dec ord U 0 ys [] m = (Inl p, m1)" by simp
    with c Inl show ?thesis by (simp add: determineDiscriminator_def result_types_def)
  next
    case (Inr d1)
    with c collect_types [OF e0 assms, of dec ord U 0 m]
    obtain d1' where c': "collect dec ord U 0 ys [] m = (Inr d1', m1)"
      and t: "discrims_types d1 = discrims_types d1'" by auto
    from t have rt: "discrims_types (range_map ord d1) = discrims_types (range_map ord d1')"
      by (simp add: range_map_types)
    from t have keys: "map fst d1 = map fst d1'"
      using discrims_types_keys [of d1] discrims_types_keys [of d1'] by simp
    have s: "result_types (select (length xs) (range_map ord d1) [] [])
           = result_types (select (length xs) (range_map ord d1') [] [])"
      by (rule select_types [OF rt t0])
    show ?thesis
    proof (cases "select (length xs) (range_map ord d1) [] []")
      case l: (Inl p)
      with s have "select (length xs) (range_map ord d1') [] [] = Inl p"
        by (auto simp: result_types_def split: sum.splits prod.splits)
      with l c c' Inr len show ?thesis by (simp add: determineDiscriminator_def result_types_def)
    next
      case r: (Inr fb)
      obtain f bv where fb: "fb = (f, bv)" by (cases fb)
      with r s obtain bv' where s': "select (length xs) (range_map ord d1') [] [] = Inr (f, bv')"
        and tb: "table_types bv = table_types bv'"
        by (auto simp: result_types_def split: sum.splits prod.splits)
      with r fb c c' Inr len keys show ?thesis
        by (simp add: determineDiscriminator_def result_types_def)
    qed
  qed
  from both show "result_types (fst (determineDiscriminator dec ord U xs m))
           = result_types (fst (determineDiscriminator dec ord U ys m))" ..
  from both show "snd (determineDiscriminator dec ord U xs m)
           = snd (determineDiscriminator dec ord U ys m)" ..
qed

lemma New_Elem_types: "TypeOf z = TypeOf z' \<Longrightarrow> New_Elem z = New_Elem z'"
  by (simp add: New_Elem_def)

lemma unmarshal_direct_types:
  assumes "TypeOf fb = TypeOf fb'"
  shows "unmarshal_direct um fb = unmarshal_direct um fb'"
proof -
  have "New_Elem fb = New_Elem fb'" by (rule New_Elem_types [OF assms])
  then show ?thesis by (intro ext) (simp add: unmarshal_direct_def Let_def)
qed

lemma unmarshal_discrim_types:
  assumes "table_types bv = table_types bv'" and "TypeOf fb = TypeOf fb'"
  shows "unmarshal_discrim um f64 f bv hf fb = unmarshal_discrim um f64 f bv' hf fb'"
proof (intro ext)
  fix d src
  have look: "\<And>k. map_option TypeOf (map_of bv k) = map_option TypeOf (map_of bv' k)"
    using assms(1) by (simp add: map_of_table_types [symmetric])
  have fbe: "New_Elem fb = New_Elem fb'" by (rule New_Elem_types [OF assms(2)])
  have cz: "(case choose_zero f64 f bv hf fb raw of
               Panicked p \<Rightarrow> choose_zero f64 f bv' hf fb' raw = Panicked p
             | Failed err \<Rightarrow> choose_zero f64 f bv' hf fb' raw = Failed err
             | Returned z \<Rightarrow> (\<exists>z'. choose_zero f64 f bv' hf fb' raw = Returned z'
                                 \<and> New_Elem z = New_Elem z'))" for raw
  proof (cases "f \<noteq> []")
    case False
    with fbe show ?thesis by (simp add: choose_zero_def)
  next
    case True
    show ?thesis
    proof (cases "fieldValue f64 raw f")
      case (Inl err)
      with True fbe show ?thesis by (simp add: choose_zero_def)
    next
      case (Inr k)
      show ?thesis
      proof (cases "hashable k")
        case False
        with True Inr show ?thesis by (simp add: choose_zero_def index_any_def)
      next
        case h: True
        show ?thesis
        proof (cases "map_of bv k")
          case None
          with look [of k] have "map_of bv' k = None" by simp
          with None True Inr h fbe show ?thesis by (simp add: choose_zero_def index_any_def)
        next
          case (Some z)
          with look [of k] obtain z' where z': "map_of bv' k = Some z'" and tz: "TypeOf z = TypeOf z'"
            by (cases "map_of bv' k") auto
          from tz have "New_Elem z = New_Elem z'" by (rule New_Elem_types)
          with Some z' True Inr h show ?thesis by (simp add: choose_zero_def index_any_def)
        qed
      qed
    qed
  qed
  show "unmarshal_discrim um f64 f bv hf fb d src = unmarshal_discrim um f64 f bv' hf fb' d src"
  proof (cases d)
    case (Inl err)
    then show ?thesis by (simp add: unmarshal_discrim_def)
  next
    case (Inr raw)
    with cz [of raw] show ?thesis
      by (cases "choose_zero f64 f bv hf fb raw") (auto simp: unmarshal_discrim_def)
  qed
qed

lemma StructsWithFallback_types:
  assumes "map TypeOf xs = map TypeOf ys" and "TypeOf fb = TypeOf fb'"
  shows "StructsWithFallback dec um f64 ord U fb xs m = StructsWithFallback dec um f64 ord U fb' ys m"
proof -
  from assms(1) have len: "length xs = length ys" by (rule map_eq_imp_length_eq)
  have nil: "isNil fb = isNil fb'"
    using assms(2) by (cases fb; cases fb') (auto simp: isNil_def TypeOf_def)
  show ?thesis
  proof (cases "xs = []")
    case True
    with len have "ys = []" by simp
    with True nil unmarshal_direct_types [OF assms(2), of um] show ?thesis
      by (simp add: StructsWithFallback_def Let_def)
  next
    case False
    with len have ne: "ys \<noteq> []" by auto
    obtain r m1 where dx: "determineDiscriminator dec ord U xs m = (r, m1)"
      by (cases "determineDiscriminator dec ord U xs m")
    obtain r' m1' where dy: "determineDiscriminator dec ord U ys m = (r', m1')"
      by (cases "determineDiscriminator dec ord U ys m")
    from determineDiscriminator_types [OF assms(1), of dec ord U m] dx dy
    have rr: "result_types r = result_types r'" and mm: "m1 = m1'" by simp_all
    show ?thesis
    proof (cases r)
      case (Inl p)
      with rr have "r' = Inl p" by (auto simp: result_types_def split: sum.splits prod.splits)
      with Inl dx dy mm False ne show ?thesis
        by (simp add: StructsWithFallback_def Let_def)
    next
      case (Inr fb0)
      obtain f bv where fb0: "fb0 = (f, bv)" by (cases fb0)
      with Inr rr obtain bv' where r': "r' = Inr (f, bv')" and tb: "table_types bv = table_types bv'"
        by (auto simp: result_types_def split: sum.splits prod.splits)
      from Inr fb0 dx have fne: "f \<noteq> []" by (auto dest: determineDiscriminator_nonempty)
      from unmarshal_discrim_types [OF tb assms(2), of um f64 f "\<not> isNil fb"] nil
      have "unmarshal_discrim um f64 f bv (\<not> isNil fb) fb
          = unmarshal_discrim um f64 f bv' (\<not> isNil fb') fb'" by simp
      with Inr fb0 r' dx dy mm False ne fne show ?thesis
        by (simp add: StructsWithFallback_def Let_def)
    qed
  qed
qed
section \<open>Claims about Const\<close>






section \<open>Claims about the inference\<close>











text \<open>
  Claim C10. \<^verbatim>\<open>isNil\<close> holds of the nil interface value only: a typed nil pointer
  is not nil. So \<^verbatim>\<open>determineDiscriminator\<close> panics with "argument j is nil" only
  when the candidate at index \<open>j\<close> is the nil interface value. The candidates and the
  fallback are looked at through their dynamic types only: two lists of candidates with
  the same dynamic types, and two fallbacks with the same dynamic type, such as typed
  nil pointers and pointers to instances, give the same panic or the same field and
  the same keys over the same types, and the same result of the constructor, with
  decode routines equal on every input. A fallback is absent exactly when it is the nil
  interface value: with no candidates the constructor panics with "no choices provided"
  exactly then, and with candidates the routine it returns is the one of the
  discriminated mode with the fallback flag set exactly when the fallback is not the
  nil interface value; on the empty object, which has no discriminator member, this
  routine fails with "field not found" when the fallback is the nil interface value and
  otherwise decodes the input into a fresh instance of the element type of the
  fallback.
\<close>

theorem isNil_only_nil_interface:
  fixes um :: "('e, 'i) unmarshal" and x :: "'i iface"
  shows "(isNil x \<longleftrightarrow> x = INil)
   \<and> \<not> isNil (IVal (TPointer t) None :: 'i iface)
   \<and> (\<forall>j U'. fst (determineDiscriminator dec ord U choices m) = Inl (NilArgument j U')
         \<longrightarrow> j < length choices \<and> choices ! j = INil)
   \<and> (map TypeOf choices = map TypeOf choices' \<and> TypeOf fallback = TypeOf fallback' \<longrightarrow>
        result_types (fst (determineDiscriminator dec ord U choices m))
          = result_types (fst (determineDiscriminator dec ord U choices' m))
        \<and> StructsWithFallback dec um f64 ord U fallback choices m
          = StructsWithFallback dec um f64 ord U fallback' choices' m)
   \<and> (Kind U = KInterface \<longrightarrow>
        (fst (StructsWithFallback dec um f64 ord U fallback [] m) = Inl NoChoices
           \<longleftrightarrow> fallback = INil))
   \<and> (\<forall>u. choices \<noteq> [] \<and> fst (StructsWithFallback dec um f64 ord U fallback choices m) = Inr u \<longrightarrow>
        (\<exists>f bv. fst (determineDiscriminator dec ord U choices m) = Inr (f, bv)
           \<and> u = unmarshal_discrim um f64 f bv (fallback \<noteq> INil) fallback
           \<and> (\<forall>src. u (Inr (JObject [])) src =
                (if fallback = INil then (Failed (FieldNotFound f), src)
                 else (case New_Elem fallback of
                         Inl p \<Rightarrow> (Panicked p, src)
                       | Inr e \<Rightarrow>
                           (case um (JObject []) e of
                              Inl err \<Rightarrow> (Failed (CodecError err), src)
                            | Inr inst \<Rightarrow> (Returned (), IVal (TPointer e) (Some inst))))))))"
proof (intro conjI allI impI)
  show n: "isNil x \<longleftrightarrow> x = INil" by (cases x) (simp_all add: isNil_def)
  show "\<not> isNil (IVal (TPointer t) None :: 'i iface)" by (simp add: isNil_def)
next
  fix j U' assume "fst (determineDiscriminator dec ord U choices m) = Inl (NilArgument j U')"
  from determineDiscriminator_NilArgument [OF this] show "j < length choices" "choices ! j = INil"
    by simp_all
next
  assume a: "map TypeOf choices = map TypeOf choices' \<and> TypeOf fallback = TypeOf fallback'"
  then show "result_types (fst (determineDiscriminator dec ord U choices m))
          = result_types (fst (determineDiscriminator dec ord U choices' m))"
    by (intro determineDiscriminator_types) simp
  from a show "StructsWithFallback dec um f64 ord U fallback choices m
          = StructsWithFallback dec um f64 ord U fallback' choices' m"
    by (intro StructsWithFallback_types) simp_all
next
  assume "Kind U = KInterface"
  then show "fst (StructsWithFallback dec um f64 ord U fallback [] m) = Inl NoChoices
               \<longleftrightarrow> fallback = INil"
    by (cases fallback) (simp_all add: StructsWithFallback_def isNil_def)
next
  fix u
  assume a: "choices \<noteq> [] \<and> fst (StructsWithFallback dec um f64 ord U fallback choices m) = Inr u"
  then have ne: "choices \<noteq> []"
    and b: "fst (StructsWithFallback dec um f64 ord U fallback choices m) = Inr u" by simp_all
  have nf: "(\<not> isNil fallback) = (fallback \<noteq> INil)"
    by (cases fallback) (simp_all add: isNil_def)
  from StructsWithFallback_discriminated [OF b ne] obtain f bv m' where
    d: "determineDiscriminator dec ord U choices m = (Inr (f, bv), m')" and f: "f \<noteq> []"
    and u: "u = unmarshal_discrim um f64 f bv (fallback \<noteq> INil) fallback"
    unfolding nf by blast
  have fv: "fieldValue f64 (JObject []) f = Inl (FieldNotFound f)"
    by (simp add: fieldValue_def)
  have e: "\<forall>src. u (Inr (JObject [])) src =
                (if fallback = INil then (Failed (FieldNotFound f), src)
                 else (case New_Elem fallback of
                         Inl p \<Rightarrow> (Panicked p, src)
                       | Inr e \<Rightarrow>
                           (case um (JObject []) e of
                              Inl err \<Rightarrow> (Failed (CodecError err), src)
                            | Inr inst \<Rightarrow> (Returned (), IVal (TPointer e) (Some inst)))))"
    using f fv by (simp add: u unmarshal_discrim_def choose_zero_def)
  from d u e show "\<exists>f bv. fst (determineDiscriminator dec ord U choices m) = Inr (f, bv)
           \<and> u = unmarshal_discrim um f64 f bv (fallback \<noteq> INil) fallback
           \<and> (\<forall>src. u (Inr (JObject [])) src =
                (if fallback = INil then (Failed (FieldNotFound f), src)
                 else (case New_Elem fallback of
                         Inl p \<Rightarrow> (Panicked p, src)
                       | Inr e \<Rightarrow>
                           (case um (JObject []) e of
                              Inl err \<Rightarrow> (Failed (CodecError err), src)
                            | Inr inst \<Rightarrow> (Returned (), IVal (TPointer e) (Some inst))))))"
    by auto
qed

theorem isNil_only_nil_interface_witness:
  "\<not> isNil (nil_of Dog) \<and> Kind Animal = KInterface
   \<and> fst (determineDiscriminator example_dec rev Animal [nil_of Dog, INil] Map.empty)
       = Inl (NilArgument 1 Animal)
   \<and> [nil_of Dog, INil] ! 1 = INil
   \<and> map TypeOf [nil_of Dog, nil_of Cat] = map TypeOf [pointer_to Dog [], pointer_to Cat []]
   \<and> TypeOf (nil_of Other) = TypeOf (pointer_to Other [])
   \<and> fst (determineDiscriminator example_dec rev Animal [nil_of Dog, nil_of Cat] Map.empty)
       = Inr (''type'', animal_table)
   \<and> result_types (fst (determineDiscriminator example_dec rev Animal
         [pointer_to Dog [], pointer_to Cat []] Map.empty))
       = Inr (''type'', [(Any TString (JString ''dog''), Some (TPointer Dog)),
                          (Any TString (JString ''cat''), Some (TPointer Cat))])
   \<and> StructsWithFallback example_dec example_um example_f64 rev Animal (nil_of Other)
         [nil_of Dog, nil_of Cat] Map.empty
       = StructsWithFallback example_dec example_um example_f64 rev Animal
           (pointer_to Other [])
           [pointer_to Dog [], pointer_to Cat []] Map.empty
   \<and> fst (StructsWithFallback example_dec example_um example_f64 rev Animal INil [] Map.empty)
       = Inl NoChoices
   \<and> fst (StructsWithFallback example_dec example_um example_f64 rev Animal (nil_of Other) []
           Map.empty)
       \<noteq> Inl NoChoices
   \<and> unmarshal_discrim example_um example_f64 ''type'' animal_table True (nil_of Other)
        (Inr (JObject [])) INil
       = (Returned (), IVal (TPointer Other) (Some []))
   \<and> unmarshal_discrim example_um example_f64 ''type'' animal_table False INil
        (Inr (JObject [])) INil
       = (Failed (FieldNotFound ''type''), INil)"
proof -
  let ?xs = "[nil_of Dog, nil_of Cat]"
  let ?ys = "[pointer_to Dog [], pointer_to Cat []]"
  let ?fb = "pointer_to Other []"
  have k: "Kind Animal = KInterface" by (simp add: Animal_def)
  have e: "fst (determineDiscriminator example_dec rev Animal [nil_of Dog, INil] Map.empty)
       = Inl (NilArgument 1 Animal)"
    by (simp add: model_defs animal_defs)
  have r: "fst (determineDiscriminator example_dec rev Animal ?xs Map.empty)
            = Inr (''type'', animal_table)"
    by (simp add: model_defs animal_defs animal_table_def)
  have ty: "map TypeOf ?xs = map TypeOf ?ys" "TypeOf (nil_of Other) = TypeOf ?fb"
    by (simp_all add: nil_of_def pointer_to_def TypeOf_def)
  have ne: "nil_of Other \<noteq> (INil :: (string \<times> json) list iface)" by (simp add: nil_of_def)
  note t1 = isNil_only_nil_interface [where x = "nil_of Dog" and t = Dog and dec = example_dec
      and ord = rev and U = Animal and choices = "[nil_of Dog, INil]" and m = Map.empty
      and um = example_um and ?f64.0 = example_f64 and fallback = INil
      and choices' = "[nil_of Dog, INil]" and fallback' = INil]
  note t2 = isNil_only_nil_interface [where x = "nil_of Dog" and t = Dog and dec = example_dec
      and ord = rev and U = Animal and choices = ?xs and m = Map.empty
      and um = example_um and ?f64.0 = example_f64 and fallback = "nil_of Other"
      and choices' = ?ys and fallback' = ?fb]
  note t3 = isNil_only_nil_interface [where x = "nil_of Dog" and t = Dog and dec = example_dec
      and ord = rev and U = Animal and choices = ?xs and m = Map.empty
      and um = example_um and ?f64.0 = example_f64 and fallback = INil
      and choices' = ?xs and fallback' = INil]
  from t1 have a: "\<not> isNil (nil_of Dog)" unfolding nil_of_def by blast
  from t1 e have b: "[nil_of Dog, INil] ! 1 = INil" by blast
  from t1 k have c: "fst (StructsWithFallback example_dec example_um example_f64 rev Animal INil []
      Map.empty) = Inl NoChoices" by blast
  from t2 k ne have d: "fst (StructsWithFallback example_dec example_um example_f64 rev Animal
      (nil_of Other) [] Map.empty) \<noteq> Inl NoChoices" by blast
  from t2 ty have rt: "result_types (fst (determineDiscriminator example_dec rev Animal ?xs Map.empty))
       = result_types (fst (determineDiscriminator example_dec rev Animal ?ys Map.empty))"
    and sw: "StructsWithFallback example_dec example_um example_f64 rev Animal (nil_of Other) ?xs Map.empty
       = StructsWithFallback example_dec example_um example_f64 rev Animal ?fb ?ys Map.empty"
    by blast+
  from rt r have rt': "result_types (fst (determineDiscriminator example_dec rev Animal ?ys Map.empty))
       = Inr (''type'', [(Any TString (JString ''dog''), Some (TPointer Dog)),
                          (Any TString (JString ''cat''), Some (TPointer Cat))])"
    by (simp add: result_types_def table_types_def animal_table_def nil_of_def TypeOf_def)
  have nex: "?xs \<noteq> []" by simp
  from t2 nex built_animals_fallback r
  have "\<forall>src. unmarshal_discrim example_um example_f64 ''type'' animal_table True (nil_of Other)
          (Inr (JObject [])) src =
            (case New_Elem (nil_of Other) of
               Inl p \<Rightarrow> (Panicked p, src)
             | Inr e \<Rightarrow>
                 (case example_um (JObject []) e of
                    Inl err \<Rightarrow> (Failed (CodecError err), src)
                  | Inr inst \<Rightarrow> (Returned (), IVal (TPointer e) (Some inst))))"
    using ne by auto
  then have f1: "unmarshal_discrim example_um example_f64 ''type'' animal_table True (nil_of Other)
        (Inr (JObject [])) INil
       = (Returned (), IVal (TPointer Other) (Some []))"
    by (simp add: New_Elem_def nil_of_def TypeOf_def Elem_def example_um_def)
  have bi: "fst (StructsWithFallback example_dec example_um example_f64 rev Animal INil ?xs Map.empty)
     = Inr (unmarshal_discrim example_um example_f64 ''type'' animal_table False INil)"
    using built_animals by (simp add: Structs_def)
  from t3 nex bi r
  have f2: "unmarshal_discrim example_um example_f64 ''type'' animal_table False INil
        (Inr (JObject [])) INil
       = (Failed (FieldNotFound ''type''), INil)"
    by auto
  show ?thesis by (intro conjI a k e b ty r rt' sw c d f1 f2)
qed

text \<open>
  Claim C9, as amended. Let the type parameter be an interface type. For every list of
  candidates without a nil interface value, the earlier \<^verbatim>\<open>Structs\<close> and the current
  one infer the same field and table and return the same result under the same
  iteration order: the same panic, or the same decode routine (equal on every input and
  destination). For a list with a nil interface value, \<open>xs\<close> being the candidates
  before the first one, both panic at construction: with the panic of the first loop of
  the inference over \<open>xs\<close> when it panics there, and otherwise the earlier one with
  the nil dereference inside \<^verbatim>\<open>constFields\<close> and the current one with "argument i is
  nil", \<open>i\<close> the index of that candidate. When the type parameter is not an interface
  type, the current \<^verbatim>\<open>Structs\<close> panics with "is not an interface type" whatever the
  candidates; the earlier one does not look at the type parameter.
\<close>

theorem old_Structs_equivalent:
  "(Kind U = KInterface \<and> INil \<notin> set choices \<longrightarrow>
      old_discriminator dec ord choices m = determineDiscriminator dec ord U choices m
      \<and> old_Structs dec um f64 ord choices m = Structs dec um f64 ord U choices m)
   \<and> (Kind U = KInterface \<and> INil \<notin> set xs \<longrightarrow>
        (case collect dec ord U 0 xs [] m of
           (Inl p, m') \<Rightarrow>
             old_Structs dec um f64 ord (xs @ INil # ys) m = (Inl p, m')
             \<and> Structs dec um f64 ord U (xs @ INil # ys) m = (Inl p, m')
         | (Inr d, m') \<Rightarrow>
             old_Structs dec um f64 ord (xs @ INil # ys) m = (Inl NilPointerDereference, m')
             \<and> Structs dec um f64 ord U (xs @ INil # ys) m
                 = (Inl (NilArgument (length xs) U), m')))
   \<and> (Kind U \<noteq> KInterface \<longrightarrow>
        Structs dec um f64 ord U choices m = (Inl (NotInterfaceType U), m))"
proof (intro conjI impI)
  assume a: "Kind U = KInterface \<and> INil \<notin> set choices"
  then have k: "Kind U = KInterface" and n: "INil \<notin> set choices" by simp_all
  show "old_discriminator dec ord choices m = determineDiscriminator dec ord U choices m"
    by (rule old_discriminator_eq [OF n])
  show "old_Structs dec um f64 ord choices m = Structs dec um f64 ord U choices m"
  proof (cases "choices = []")
    case True
    with k show ?thesis
      by (simp add: old_Structs_def Structs_def StructsWithFallback_def isNil_def)
  next
    case False
    obtain r m' where d: "determineDiscriminator dec ord U choices m = (r, m')"
      by (cases "determineDiscriminator dec ord U choices m")
    show ?thesis
    proof (cases r)
      case (Inl p)
      with d False k show ?thesis
        by (simp add: old_Structs_def Structs_def StructsWithFallback_def isNil_def
            old_discriminator_eq [OF n, of dec ord m U])
    next
      case (Inr fb)
      obtain f bv where fb: "fb = (f, bv)" by (cases fb)
      with d Inr have "f \<noteq> []" by (auto dest: determineDiscriminator_nonempty)
      with d Inr fb False k show ?thesis
        by (simp add: old_Structs_def Structs_def StructsWithFallback_def isNil_def
            old_discriminator_eq [OF n, of dec ord m U] old_unmarshal_eq [of f um f64 bv INil])
    qed
  qed
next
  assume a: "Kind U = KInterface \<and> INil \<notin> set xs"
  then have k: "Kind U = KInterface" and n: "INil \<notin> set xs" by simp_all
  obtain r m' where c: "collect dec ord U 0 xs [] m = (r, m')"
    by (cases "collect dec ord U 0 xs [] m")
  have new: "collect dec ord U 0 (xs @ INil # ys) [] m =
     (case r of Inl p \<Rightarrow> (Inl p, m') | Inr d' \<Rightarrow> (Inl (NilArgument (length xs) U), m'))"
    by (simp add: collect_first_nil c)
  have old: "old_collect dec ord (xs @ INil # ys) [] m =
     (case r of Inl p \<Rightarrow> (Inl p, m') | Inr d' \<Rightarrow> (Inl NilPointerDereference, m'))"
    by (simp add: old_collect_first_nil [OF n, of dec ord ys m U] c)
  show "case collect dec ord U 0 xs [] m of
           (Inl p, m') \<Rightarrow>
             old_Structs dec um f64 ord (xs @ INil # ys) m = (Inl p, m')
             \<and> Structs dec um f64 ord U (xs @ INil # ys) m = (Inl p, m')
         | (Inr d, m') \<Rightarrow>
             old_Structs dec um f64 ord (xs @ INil # ys) m = (Inl NilPointerDereference, m')
             \<and> Structs dec um f64 ord U (xs @ INil # ys) m
                 = (Inl (NilArgument (length xs) U), m')"
    using k new old
    by (cases r)
       (simp_all add: c old_Structs_def old_discriminator_def Structs_def
         StructsWithFallback_def determineDiscriminator_def isNil_def)
next
  assume "Kind U \<noteq> KInterface"
  then show "Structs dec um f64 ord U choices m = (Inl (NotInterfaceType U), m)"
    by (simp add: Structs_def StructsWithFallback_def)
qed

theorem old_Structs_equivalent_witness:
  "Kind Animal = KInterface \<and> Kind (TPointer Dog) \<noteq> KInterface
   \<and> INil \<notin> set [nil_of Dog, nil_of Cat]
   \<and> old_Structs example_dec example_um example_f64 rev [nil_of Dog, nil_of Cat] Map.empty
       = Structs example_dec example_um example_f64 rev Animal [nil_of Dog, nil_of Cat] Map.empty
   \<and> fst (Structs example_dec example_um example_f64 rev Animal [nil_of Dog, nil_of Cat] Map.empty)
       = Inr (unmarshal_discrim example_um example_f64 ''type'' animal_table False INil)
   \<and> fst (old_Structs example_dec example_um example_f64 rev [nil_of Dog, INil, nil_of Cat] Map.empty)
       = Inl NilPointerDereference
   \<and> fst (Structs example_dec example_um example_f64 rev Animal [nil_of Dog, INil, nil_of Cat]
            Map.empty)
       = Inl (NilArgument 1 Animal)
   \<and> fst (old_Structs example_dec example_um example_f64 rev [nil_of Plain, INil] Map.empty)
       = Inl NilPointerDereference
   \<and> fst (Structs example_dec example_um example_f64 rev (TPointer Dog) [nil_of Dog, nil_of Cat]
            Map.empty)
       = Inl (NotInterfaceType (TPointer Dog))"
proof -
  have k: "Kind Animal = KInterface" by (simp add: Animal_def)
  have k': "Kind (TPointer Dog) \<noteq> KInterface" by simp
  have n: "INil \<notin> set [nil_of Dog, nil_of Cat]" by (simp add: nil_of_def)
  have n1: "INil \<notin> set [nil_of Dog]" by (simp add: nil_of_def)
  have n2: "INil \<notin> set [nil_of Plain]" by (simp add: nil_of_def)
  have a: "old_Structs example_dec example_um example_f64 rev [nil_of Dog, nil_of Cat] Map.empty
       = Structs example_dec example_um example_f64 rev Animal [nil_of Dog, nil_of Cat] Map.empty"
    using old_Structs_equivalent [where U = Animal and choices = "[nil_of Dog, nil_of Cat]"
        and dec = example_dec and ord = rev and m = Map.empty and um = example_um
        and ?f64.0 = example_f64 and xs = "[]" and ys = "[]"] k n
    by blast
  have c1: "\<exists>d m'. collect example_dec rev Animal 0 [nil_of Dog] [] Map.empty = (Inr d, m')"
    by (simp add: model_defs animal_defs)
  have c2: "\<exists>d m'. collect example_dec rev Animal 0 [nil_of Plain] [] Map.empty = (Inr d, m')"
    by (simp add: model_defs animal_defs Plain_def)
  have b: "fst (old_Structs example_dec example_um example_f64 rev [nil_of Dog, INil, nil_of Cat] Map.empty)
       = Inl NilPointerDereference
     \<and> fst (Structs example_dec example_um example_f64 rev Animal [nil_of Dog, INil, nil_of Cat]
            Map.empty)
       = Inl (NilArgument 1 Animal)"
    using old_Structs_equivalent [where U = Animal and choices = "[]"
        and dec = example_dec and ord = rev and m = Map.empty and um = example_um
        and ?f64.0 = example_f64 and xs = "[nil_of Dog]" and ys = "[nil_of Cat]"] k n1 c1
    by auto
  have c: "fst (old_Structs example_dec example_um example_f64 rev [nil_of Plain, INil] Map.empty)
       = Inl NilPointerDereference"
    using old_Structs_equivalent [where U = Animal and choices = "[]"
        and dec = example_dec and ord = rev and m = Map.empty and um = example_um
        and ?f64.0 = example_f64 and xs = "[nil_of Plain]" and ys = "[]"] k n2 c2
    by auto
  have d: "fst (Structs example_dec example_um example_f64 rev (TPointer Dog) [nil_of Dog, nil_of Cat]
            Map.empty)
       = Inl (NotInterfaceType (TPointer Dog))"
    using old_Structs_equivalent [where U = "TPointer Dog" and choices = "[nil_of Dog, nil_of Cat]"
        and dec = example_dec and ord = rev and m = Map.empty and um = example_um
        and ?f64.0 = example_f64 and xs = "[]" and ys = "[]"]
    by simp
  show ?thesis
    using b c by (intro conjI k k' n a built_animals d) simp_all
qed

text \<open>
  The claim as stated fails when the type parameter is not an interface type. With
  the type parameter \<^verbatim>\<open>*Dog\<close> and the candidates \<^verbatim>\<open>(*Dog)(nil)\<close> the earlier
  version infers the field \<^verbatim>\<open>type\<close> and returns a decode routine, which decodes an
  input; the current one panics at construction.
\<close>

theorem old_Structs_differs:
  "fst (old_Structs example_dec example_um example_f64 (\<lambda>ks. ks) [nil_of Dog] Map.empty)
     = Inr (old_unmarshal example_um example_f64 ''type''
              [(Any TString (JString ''dog''), nil_of Dog)])
   \<and> old_unmarshal example_um example_f64 ''type'' [(Any TString (JString ''dog''), nil_of Dog)]
        (Inr (JObject [(''type'', JString ''dog''), (''Bark'', JString ''x'')])) INil
      = (Returned (),
         IVal (TPointer Dog) (Some [(''type'', JString ''dog''), (''Bark'', JString ''x'')]))
   \<and> fst (Structs example_dec example_um example_f64 (\<lambda>ks. ks) (TPointer Dog) [nil_of Dog]
            Map.empty)
       = Inl (NotInterfaceType (TPointer Dog))"
  by (simp add: model_defs animal_defs Structs_def StructsWithFallback_def
      old_Structs_def old_discriminator_def old_constFields_def old_unmarshal_def
      old_fieldValue_def decode_any_def index_any_def New_Elem_def example_um_def)

section \<open>Claims about the dispatching decode\<close>

text \<open>
  Claim C7. A decode call through a dispatcher assigns the destination only on success,
  and then with the instance that the codec fully populated; on every other outcome
  (an error or a panic) the destination is what it was before the call.
\<close>

theorem unmarshaler_atomic:
  assumes "fst (StructsWithFallback dec um f64 ord U fallback choices m) = Inr u"
  shows "(fst (u d src) = Returned () \<longrightarrow>
            (\<exists>raw e inst. d = Inr raw \<and> um raw e = Inr inst
                \<and> snd (u d src) = IVal (TPointer e) (Some inst)))
       \<and> (fst (u d src) \<noteq> Returned () \<longrightarrow> snd (u d src) = src)"
proof (cases "choices = []")
  case True
  with assms StructsWithFallback_direct [of dec um f64 ord U fallback m u]
  have "u = unmarshal_direct um fallback" by simp
  then show ?thesis using unmarshal_direct_atomic [of um fallback d src] by simp
next
  case False
  from StructsWithFallback_discriminated [OF assms False] obtain f bv where
    "u = unmarshal_discrim um f64 f bv (\<not> isNil fallback) fallback" by blast
  then show ?thesis using unmarshal_discrim_atomic [of um f64 f bv "\<not> isNil fallback" fallback d src]
    by simp
qed

theorem unmarshaler_atomic_witness:
  "fst (StructsWithFallback example_dec example_um example_f64 rev Animal INil [nil_of Dog, nil_of Cat] Map.empty)
     = Inr (unmarshal_discrim example_um example_f64 ''type'' animal_table False INil)
   \<and> unmarshal_discrim example_um example_f64 ''type'' animal_table False INil
        (Inr (JObject [(''Bark'', JString ''woof''), (''type'', JString ''dog'')])) INil
      = (Returned (),
         IVal (TPointer Dog) (Some [(''Bark'', JString ''woof''), (''type'', JString ''dog'')]))
   \<and> fst (unmarshal_discrim example_um example_f64 ''type'' animal_table False INil
        (Inr (JObject [(''type'', JString ''fox'')])) (nil_of Cat))
      = Failed (UnknownDiscriminator (Any TString (JString ''fox'')))
   \<and> snd (unmarshal_discrim example_um example_f64 ''type'' animal_table False INil
        (Inr (JObject [(''type'', JString ''fox'')])) (nil_of Cat))
      = nil_of Cat"
proof -
  let ?u = "unmarshal_discrim example_um example_f64 ''type'' animal_table False INil"
  have b: "fst (StructsWithFallback example_dec example_um example_f64 rev Animal INil [nil_of Dog, nil_of Cat] Map.empty)
     = Inr ?u"
    using built_animals by (simp add: Structs_def)
  have ok: "?u (Inr (JObject [(''Bark'', JString ''woof''), (''type'', JString ''dog'')])) INil
      = (Returned (),
         IVal (TPointer Dog) (Some [(''Bark'', JString ''woof''), (''type'', JString ''dog'')]))"
    by (simp add: dispatch_defs example_um_def animal_table_def nil_of_def TypeOf_def Elem_def)
  have bad: "fst (?u (Inr (JObject [(''type'', JString ''fox'')])) (nil_of Cat))
      = Failed (UnknownDiscriminator (Any TString (JString ''fox'')))"
    by (simp add: dispatch_defs example_um_def animal_table_def nil_of_def)
  from unmarshaler_atomic [OF b, of "Inr (JObject [(''type'', JString ''fox'')])" "nil_of Cat"] bad
  have "snd (?u (Inr (JObject [(''type'', JString ''fox'')])) (nil_of Cat)) = nil_of Cat"
    by simp
  with b ok bad show ?thesis by blast
qed




text \<open>
  Claim C4: when the discriminator value of the input is not a key of the table, or the
  field is absent, the decode fails if there is no fallback (with "unknown discriminator
  value" and the valid values, or with "field not found") and decodes the whole input
  into the fallback shape if there is one. The code does not do this in two respects,
  evaluated below. When the discriminator member of the input is an
  array or an object, its decoded value is not a key of the table, and indexing the
  table with it panics: the call neither fails with "unknown discriminator value" nor
  falls back. And the error for an unknown value carries that value only: the operand
  meant to list the valid values is an iterator function, not the keys. Both are
  evaluated here on the dispatcher over \<^verbatim>\<open>(*Dog)(nil), (*Cat)(nil)\<close>, with and without
  the fallback \<^verbatim>\<open>(*Other)(nil)\<close>.
\<close>

theorem unmarshal_unhashable_discriminator:
  "fst (StructsWithFallback example_dec example_um example_f64 (\<lambda>ks. ks) Animal (nil_of Other)
          [nil_of Dog, nil_of Cat] Map.empty)
     = Inr (unmarshal_discrim example_um example_f64 ''type'' animal_table True (nil_of Other))
   \<and> unmarshal_discrim example_um example_f64 ''type'' animal_table True (nil_of Other)
        (Inr (JObject [(''type'', JArray [])])) INil
      = (Panicked (UnhashableType (AnySlice [])), INil)
   \<and> fst (Structs example_dec example_um example_f64 (\<lambda>ks. ks) Animal [nil_of Dog, nil_of Cat] Map.empty)
     = Inr (unmarshal_discrim example_um example_f64 ''type'' animal_table False INil)
   \<and> unmarshal_discrim example_um example_f64 ''type'' animal_table False INil
        (Inr (JObject [(''type'', JObject [])])) INil
      = (Panicked (UnhashableType (AnyMap [])), INil)
   \<and> unmarshal_discrim example_um example_f64 ''type'' animal_table False INil
        (Inr (JObject [(''type'', JString ''fox'')])) INil
      = (Failed (UnknownDiscriminator (Any TString (JString ''fox''))), INil)"
  by (simp add: model_defs animal_defs Other_def dispatch_defs example_um_def animal_table_def)

text \<open>
  Claim C2: the encoding of an instance of any candidate decodes, through the
  dispatcher built over the candidates, to an instance equal to it, whatever the order
  of the members. The code does not do this for two kinds of candidates, evaluated
  below. A candidate given as a struct value, which the
  documentation of \<^verbatim>\<open>Structs\<close> allows and \<^verbatim>\<open>constFields\<close> accepts, makes every decode
  of its own encoding panic, since its type has no element type. A candidate whose
  constant is an integer is never found: the scan decodes the number as
  \<^verbatim>\<open>float64\<close>, and the key of the table has the dynamic type \<^verbatim>\<open>int\<close>.
\<close>

theorem unmarshal_round_trip_fails:
  "(\<exists>u. fst (Structs example_dec example_um example_f64 (\<lambda>ks. ks) Animal
               [IVal Dog (Some []), IVal Cat (Some [])] Map.empty) = Inr u
        \<and> u (Inr (JObject [(''type'', JString ''dog''), (''Bark'', JString ''x'')])) INil
            = (Panicked (ElemOfInvalidType Dog), INil))
   \<and> (\<exists>u. fst (Structs example_dec example_um example_f64 (\<lambda>ks. ks) Animal [nil_of Answer] Map.empty) = Inr u
        \<and> u (Inr (JObject [(''kind'', JNumber 42), (''Text'', JString ''x'')])) INil
            = (Failed (UnknownDiscriminator (Any TFloat64 (JNumber 42))), INil))"
  by (simp add: model_defs animal_defs Answer_def dispatch_defs example_um_def example_f64_def)

end
